theory Spec2Isabelle
  imports Main "HOL-Library.Word"
begin

section \<open>Python values and the builtins the driver relies on\<close>

text \<open>
  The driver (\<^verbatim>\<open>picomotor.py\<close>, class \<^verbatim>\<open>Controller\<close>) is dynamically typed: an
  address, an axis or a value may be \<^verbatim>\<open>None\<close>, a bool, an int or a str, and the
  code inspects the type at run time (\<^verbatim>\<open>type(axis) == int\<close>, \<^verbatim>\<open>if axis:\<close>,
  \<^verbatim>\<open>val is not None\<close>). Arguments are therefore values of \<open>pyval\<close>. Floats are
  left out of the model.
\<close>

datatype pyval = PNone | PBool bool | PInt int | PStr string

datatype error =
    ValueError string
  | KeyError string
  | IndexError
  | TypeError
  | TransportError

text \<open>\<^verbatim>\<open>x == n\<close> for an int literal \<open>n\<close>: a bool compares as 0 or 1.\<close>

fun py_eq_int :: "pyval \<Rightarrow> int \<Rightarrow> bool" where
  "py_eq_int (PInt i) n = (i = n)"
| "py_eq_int (PBool b) n = ((if b then 1 else 0) = n)"
| "py_eq_int PNone n = False"
| "py_eq_int (PStr s) n = False"

text \<open>\<^verbatim>\<open>x == s\<close> for a str literal \<open>s\<close>.\<close>

fun py_eq_str :: "pyval \<Rightarrow> string \<Rightarrow> bool" where
  "py_eq_str (PStr t) s = (t = s)"
| "py_eq_str PNone s = False"
| "py_eq_str (PBool b) s = False"
| "py_eq_str (PInt i) s = False"

text \<open>\<^verbatim>\<open>type(x) == int\<close>: false for a bool, whose type is \<^verbatim>\<open>bool\<close>.\<close>

fun type_is_int :: "pyval \<Rightarrow> bool" where
  "type_is_int (PInt i) = True"
| "type_is_int PNone = False"
| "type_is_int (PBool b) = False"
| "type_is_int (PStr s) = False"

fun the_int :: "pyval \<Rightarrow> int" where
  "the_int (PInt i) = i"
| "the_int (PBool b) = (if b then 1 else 0)"
| "the_int PNone = 0"
| "the_int (PStr s) = 0"

text \<open>The truth value of \<^verbatim>\<open>if x:\<close>.\<close>

fun truthy :: "pyval \<Rightarrow> bool" where
  "truthy PNone = False"
| "truthy (PBool b) = b"
| "truthy (PInt i) = (i \<noteq> 0)"
| "truthy (PStr s) = (s \<noteq> [])"

fun digit_char :: "nat \<Rightarrow> char" where
  "digit_char n = ''0123456789'' ! n"

function dec_digits :: "nat \<Rightarrow> string" where
  "dec_digits n =
     (if n < 10 then [digit_char n] else dec_digits (n div 10) @ [digit_char (n mod 10)])"
  by pat_completeness auto
termination
  by (relation "measure id") auto

definition str_int :: "int \<Rightarrow> string" where
  "str_int i = (if i < 0 then CHR ''-'' # dec_digits (nat (- i)) else dec_digits (nat i))"

text \<open>What an f-string writes for \<^verbatim>\<open>{x}\<close>.\<close>

fun py_str :: "pyval \<Rightarrow> string" where
  "py_str PNone = ''None''"
| "py_str (PBool b) = (if b then ''True'' else ''False'')"
| "py_str (PInt i) = str_int i"
| "py_str (PStr s) = s"

definition CR :: char where
  "CR = CHR 0x0D"

section \<open>Command table\<close>

text \<open>
  \<^verbatim>\<open>from commands import COMMANDS\<close>: the table is a dict from operation names to
  mnemonics. Its module is not part of the sources at hand, so every definition
  takes the table as a parameter: an association list in which the first binding
  of a key is the dict's entry.
\<close>

type_synonym commands = "(string \<times> string) list"

text \<open>\<^verbatim>\<open>COMMANDS[name]\<close>, which raises \<^verbatim>\<open>KeyError\<close> on a missing name.\<close>

definition COMMANDS_get :: "commands \<Rightarrow> string \<Rightarrow> error + string" where
  "COMMANDS_get COMMANDS name =
     (case map_of COMMANDS name of None \<Rightarrow> Inl (KeyError name) | Some m \<Rightarrow> Inr m)"

text \<open>\<^verbatim>\<open>COMMANDS.values()\<close>.\<close>

definition COMMANDS_values :: "commands \<Rightarrow> string list" where
  "COMMANDS_values COMMANDS =
     map snd (filter (\<lambda>(k, v). map_of COMMANDS k = Some v) COMMANDS)"

section \<open>Command formatter\<close>

definition verify_command :: "commands \<Rightarrow> string \<Rightarrow> error + unit" where
  "verify_command COMMANDS cmd =
     (if \<not> (cmd \<in> set (COMMANDS_values COMMANDS)) then Inl (ValueError ''Invalid command'')
      else Inr ())"

definition verify_address_value :: "pyval \<Rightarrow> error + unit" where
  "verify_address_value addr =
     (if \<not> (py_eq_int addr 1 \<or> py_eq_int addr 2) then Inl (ValueError ''Invalid address value'')
      else Inr ())"

definition verify_axis_value :: "pyval \<Rightarrow> error + unit" where
  "verify_axis_value axis =
     (if \<not> (type_is_int axis \<and> 1 \<le> the_int axis \<and> the_int axis \<le> 4)
      then Inl (ValueError ''Invalid axis value'')
      else Inr ())"

text \<open>
  \<^verbatim>\<open>format_command(ascii_cmd, addr = 1, axis = None, val = None)\<close>. An omitted
  argument is its default, so a caller of the model passes \<open>PInt 1\<close> or \<open>PNone\<close>
  there. The function touches no attribute of the controller: it has no channel
  argument and no channel result.
\<close>

definition format_command :: "commands \<Rightarrow> string \<Rightarrow> pyval \<Rightarrow> pyval \<Rightarrow> pyval \<Rightarrow> error + string" where
  "format_command COMMANDS ascii_cmd addr axis val =
     (case verify_command COMMANDS ascii_cmd of
        Inl e \<Rightarrow> Inl e
      | Inr u \<Rightarrow>
     (case verify_address_value addr of
        Inl e \<Rightarrow> Inl e
      | Inr u \<Rightarrow>
     (case (if truthy axis
            then (case verify_axis_value axis of
                    Inl e \<Rightarrow> Inl e
                  | Inr u \<Rightarrow> Inr (py_str addr @ ''>'' @ py_str axis @ ascii_cmd))
            else Inr (py_str addr @ ''>'' @ ascii_cmd)) of
        Inl e \<Rightarrow> Inl e
      | Inr cmd \<Rightarrow>
          Inr (if val \<noteq> PNone then cmd @ py_str val @ [CR] else cmd @ [CR]))))"

text \<open>
  Modelled from the spec: \<^verbatim>\<open>commands.py\<close> is missing. The names are the keys
  that \<^verbatim>\<open>picomotor.py\<close> looks up; \<open>VA\<close> and \<open>MD?\<close> are the mnemonics of the
  specification's wire examples (\<^verbatim>\<open>1>1VA500\<close>, \<^verbatim>\<open>1>MD?\<close>), the others follow the
  controller's command set. The general theorems hold for every table; this one
  is the table of the concrete runs.
\<close>

definition COMMANDS_8742 :: commands where
  "COMMANDS_8742 =
     [(''id_string'', ''*IDN?''), (''query_firmware'', ''VE?''),
      (''set_velocity'', ''VA''), (''query_velocity'', ''VA?''),
      (''set_accel'', ''AC''), (''query_accel'', ''AC?''),
      (''query_pos'', ''TP?''), (''define_home'', ''DH''), (''query_home'', ''DH?''),
      (''query_motion_done'', ''MD?''), (''move_indefinitely'', ''MV''),
      (''move_to_target_pos'', ''PA''), (''query_target_pos'', ''PA?''),
      (''move_relative'', ''PR''), (''query_target_rel'', ''PR?''),
      (''motor_check'', ''MC''), (''set_motor_type'', ''QM''),
      (''query_motor_type'', ''QM?''), (''set_address'', ''SA''),
      (''query_address'', ''SA?''), (''scan_RS485'', ''SC''),
      (''query_scan_status'', ''SD?''), (''query_RS485_addr'', ''SC?''),
      (''save'', ''SM''), (''stop'', ''ST''), (''query_error_msg'', ''TB?''),
      (''query_error_nr'', ''TE?''), (''purge_memory'', ''XX'')]"

section \<open>Channel\<close>

text \<open>
  The two USB endpoints are the driver's only contact with the outside. The model
  keeps what the driver can do to them: \<open>writes\<close> is the sequence of command
  strings handed to \<^verbatim>\<open>ep_out.write\<close>, \<open>reads\<close> counts the calls of
  \<^verbatim>\<open>ep_in.read\<close>. What the controller answers is a script \<open>dev\<close>: the reply to
  the \<open>n\<close>-th read, or \<open>None\<close> when that read fails (a timeout raises in the USB
  library). A script may answer for ever. A read of at most \<open>max_length\<close> bytes
  returns no more than that many; a write always succeeds.
\<close>

type_synonym byte = "8 word"

type_synonym device = "nat \<Rightarrow> byte list option"

record channel =
  writes :: "string list"
  reads :: nat

type_synonym 'a action = "channel \<Rightarrow> (error + 'a) \<times> channel"

text \<open>
  Sequencing with exceptions: a raised error ends the operation and leaves the
  channel as it was when the error was raised.
\<close>

definition returns :: "'a \<Rightarrow> 'a action" where
  "returns x ch = (Inr x, ch)"

definition pure_then :: "error + 'a \<Rightarrow> ('a \<Rightarrow> 'b action) \<Rightarrow> 'b action" where
  "pure_then r f ch = (case r of Inl e \<Rightarrow> (Inl e, ch) | Inr x \<Rightarrow> f x ch)"

definition and_then :: "'a action \<Rightarrow> ('a \<Rightarrow> 'b action) \<Rightarrow> 'b action" where
  "and_then m f ch = (case m ch of (Inl e, ch') \<Rightarrow> (Inl e, ch') | (Inr x, ch') \<Rightarrow> f x ch')"

definition ep_out_write :: "string \<Rightarrow> unit action" where
  "ep_out_write usb_command ch = (Inr (), ch\<lparr>writes := writes ch @ [usb_command]\<rparr>)"

definition ep_in_read :: "device \<Rightarrow> nat \<Rightarrow> byte list action" where
  "ep_in_read dev max_length ch =
     (case dev (reads ch) of
        None \<Rightarrow> (Inl TransportError, ch\<lparr>reads := Suc (reads ch)\<rparr>)
      | Some bs \<Rightarrow> (Inr (take max_length bs), ch\<lparr>reads := Suc (reads ch)\<rparr>))"

text \<open>\<^verbatim>\<open>send_command(usb_command, get_reply=False)\<close>; without a reply it returns \<^verbatim>\<open>None\<close>.\<close>

definition send_command :: "device \<Rightarrow> string \<Rightarrow> bool \<Rightarrow> byte list option action" where
  "send_command dev usb_command get_reply =
     and_then (ep_out_write usb_command) (\<lambda>u.
       if get_reply then and_then (ep_in_read dev 100) (\<lambda>bs. returns (Some bs))
       else returns None)"

section \<open>Reply parser\<close>

text \<open>\<^verbatim>\<open>chr(x)\<close> of a byte: the character with that code point.\<close>

definition chr_py :: "byte \<Rightarrow> char" where
  "chr_py x = char_of (unat x)"

text \<open>
  \<^verbatim>\<open>str.isspace\<close> on the code points below 256, which is what \<^verbatim>\<open>rstrip()\<close>
  without an argument removes.
\<close>

definition isspace :: "char \<Rightarrow> bool" where
  "isspace c = ((of_char c :: nat) \<in> {9, 10, 11, 12, 13, 28, 29, 30, 31, 32, 133, 160})"

definition rstrip :: "string \<Rightarrow> string" where
  "rstrip s = rev (dropWhile isspace (rev s))"

text \<open>
  \<^verbatim>\<open>parse_reply(reply)\<close>. Iterating over \<^verbatim>\<open>None\<close> (the result of a send without
  reply) raises \<^verbatim>\<open>TypeError\<close>; the slice \<^verbatim>\<open>[2:]\<close> never raises.
\<close>

fun parse_reply :: "byte list option \<Rightarrow> error + string" where
  "parse_reply None = Inl TypeError"
| "parse_reply (Some reply) = Inr (drop 2 (rstrip (map chr_py reply)))"

text \<open>\<^verbatim>\<open>s[-1]\<close> on a str.\<close>

fun last_char :: "string \<Rightarrow> error + char" where
  "last_char [] = Inl IndexError"
| "last_char (c # cs) = Inr (last (c # cs))"

subsection \<open>\<^verbatim>\<open>int(s)\<close> and \<^verbatim>\<open>format(n, 'b')\<close>\<close>

text \<open>
  \<^verbatim>\<open>int\<close> on a str of code points below 256: surrounding white space is dropped
  (for \<^verbatim>\<open>int\<close> the code points 28 to 31 are not white space), one sign may lead,
  and the digits may be separated by single underscores. The interpreter's limit
  on the number of digits (4300) is beyond every reply, which has at most 100
  bytes, and is not modelled.
\<close>

definition int_space :: "char \<Rightarrow> bool" where
  "int_space c = ((of_char c :: nat) \<in> {9, 10, 11, 12, 13, 32, 133, 160})"

definition is_digit :: "char \<Rightarrow> bool" where
  "is_digit c = (48 \<le> (of_char c :: nat) \<and> (of_char c :: nat) \<le> 57)"

definition digit_val :: "char \<Rightarrow> nat" where
  "digit_val c = of_char c - 48"

fun digits_ok :: "string \<Rightarrow> bool" where
  "digits_ok [] = False"
| "digits_ok [c] = is_digit c"
| "digits_ok (c # d # cs) =
     (is_digit c \<and> (if d = CHR ''_'' then digits_ok cs else digits_ok (d # cs)))"

definition dec_value :: "string \<Rightarrow> nat" where
  "dec_value s = foldl (\<lambda>acc c. 10 * acc + digit_val c) 0 (filter is_digit s)"

definition py_int :: "string \<Rightarrow> error + int" where
  "py_int s =
     (let t = rev (dropWhile int_space (rev (dropWhile int_space s)));
          neg = (t \<noteq> [] \<and> hd t = CHR ''-'');
          body = (if t \<noteq> [] \<and> (hd t = CHR ''-'' \<or> hd t = CHR ''+'') then tl t else t)
      in if digits_ok body
         then Inr (if neg then - int (dec_value body) else int (dec_value body))
         else Inl (ValueError ''invalid literal for int() with base 10''))"

function bin_digits :: "nat \<Rightarrow> string" where
  "bin_digits n =
     (if n < 2 then [digit_char n] else bin_digits (n div 2) @ [digit_char (n mod 2)])"
  by pat_completeness auto
termination
  by (relation "measure id") auto

definition format_b :: "int \<Rightarrow> string" where
  "format_b n = (if n < 0 then CHR ''-'' # bin_digits (nat (- n)) else bin_digits (nat n))"

text \<open>A list comprehension whose element expression may raise: the first error ends it.\<close>

fun comprehension :: "('a \<Rightarrow> error + 'b) \<Rightarrow> 'a list \<Rightarrow> error + 'b list" where
  "comprehension f [] = Inr []"
| "comprehension f (x # xs) =
     (case f x of
        Inl e \<Rightarrow> Inl e
      | Inr y \<Rightarrow> (case comprehension f xs of Inl e \<Rightarrow> Inl e | Inr ys \<Rightarrow> Inr (y # ys)))"

section \<open>Protocol operations\<close>

definition MOTOR_TYPE :: "(string \<times> string) list" where
  "MOTOR_TYPE =
     [(''0'', ''No motor connected''),
      (''1'', ''Motor Unknown''),
      (''2'', CHR 0x27 # ''Tiny'' @ CHR 0x27 # '' Motor''),
      (''3'', CHR 0x27 # ''Standard'' @ CHR 0x27 # '' Motor'')]"

definition MOTOR_TYPE_get :: "string \<Rightarrow> error + string" where
  "MOTOR_TYPE_get k =
     (case map_of MOTOR_TYPE k of None \<Rightarrow> Inl (KeyError k) | Some label \<Rightarrow> Inr label)"

text \<open>\<^verbatim>\<open>get_id(addr)\<close>: no check of its own, the address goes to \<open>format_command\<close>.\<close>

definition get_id :: "commands \<Rightarrow> device \<Rightarrow> pyval \<Rightarrow> string action" where
  "get_id COMMANDS dev addr =
     pure_then (COMMANDS_get COMMANDS ''id_string'') (\<lambda>m.
     pure_then (format_command COMMANDS m addr PNone PNone) (\<lambda>cmd.
     and_then (send_command dev cmd True) (\<lambda>r.
     pure_then (parse_reply r) returns)))"

definition set_velocity :: "commands \<Rightarrow> device \<Rightarrow> pyval \<Rightarrow> pyval \<Rightarrow> pyval \<Rightarrow> unit action" where
  "set_velocity COMMANDS dev addr axis val =
     pure_then (verify_address_value addr) (\<lambda>u.
     pure_then (verify_axis_value axis) (\<lambda>u.
     pure_then (if \<not> (type_is_int val \<and> 1 \<le> the_int val \<and> the_int val \<le> 2000)
                then Inl (ValueError ''Velocity must be between 1 and 2000'')
                else Inr ()) (\<lambda>u.
     pure_then (COMMANDS_get COMMANDS ''set_velocity'') (\<lambda>m.
     pure_then (format_command COMMANDS m addr axis val) (\<lambda>cmd.
     and_then (send_command dev cmd False) (\<lambda>r. returns ()))))))"

definition get_velocity :: "commands \<Rightarrow> device \<Rightarrow> pyval \<Rightarrow> pyval \<Rightarrow> int action" where
  "get_velocity COMMANDS dev addr axis =
     pure_then (verify_address_value addr) (\<lambda>u.
     pure_then (verify_axis_value axis) (\<lambda>u.
     pure_then (COMMANDS_get COMMANDS ''query_velocity'') (\<lambda>m.
     pure_then (format_command COMMANDS m addr axis PNone) (\<lambda>cmd.
     and_then (send_command dev cmd True) (\<lambda>r.
     pure_then (parse_reply r) (\<lambda>reply.
     pure_then (py_int reply) returns))))))"

definition set_acceleration :: "commands \<Rightarrow> device \<Rightarrow> pyval \<Rightarrow> pyval \<Rightarrow> pyval \<Rightarrow> unit action" where
  "set_acceleration COMMANDS dev addr axis val =
     pure_then (verify_address_value addr) (\<lambda>u.
     pure_then (verify_axis_value axis) (\<lambda>u.
     pure_then (if \<not> (type_is_int val \<and> 0 < the_int val \<and> the_int val \<le> 200000)
                then Inl (ValueError ''Invalid acceleration value'')
                else Inr ()) (\<lambda>u.
     pure_then (COMMANDS_get COMMANDS ''set_accel'') (\<lambda>m.
     pure_then (format_command COMMANDS m addr axis val) (\<lambda>cmd.
     and_then (send_command dev cmd False) (\<lambda>r. returns ()))))))"

definition get_acceleration :: "commands \<Rightarrow> device \<Rightarrow> pyval \<Rightarrow> pyval \<Rightarrow> int action" where
  "get_acceleration COMMANDS dev addr axis =
     pure_then (COMMANDS_get COMMANDS ''query_accel'') (\<lambda>m.
     pure_then (format_command COMMANDS m addr axis PNone) (\<lambda>cmd.
     and_then (send_command dev cmd True) (\<lambda>r.
     pure_then (parse_reply r) (\<lambda>reply.
     pure_then (py_int reply) returns))))"

definition get_position :: "commands \<Rightarrow> device \<Rightarrow> pyval \<Rightarrow> pyval \<Rightarrow> int action" where
  "get_position COMMANDS dev addr axis =
     pure_then (verify_address_value addr) (\<lambda>u.
     pure_then (verify_axis_value axis) (\<lambda>u.
     pure_then (COMMANDS_get COMMANDS ''query_pos'') (\<lambda>m.
     pure_then (format_command COMMANDS m addr axis PNone) (\<lambda>cmd.
     and_then (send_command dev cmd True) (\<lambda>r.
     pure_then (parse_reply r) (\<lambda>reply.
     pure_then (py_int reply) returns))))))"

text \<open>\<^verbatim>\<open>set_home(addr, axis, val = None)\<close>.\<close>

definition set_home :: "commands \<Rightarrow> device \<Rightarrow> pyval \<Rightarrow> pyval \<Rightarrow> pyval \<Rightarrow> unit action" where
  "set_home COMMANDS dev addr axis val =
     pure_then (verify_address_value addr) (\<lambda>u.
     pure_then (verify_axis_value axis) (\<lambda>u.
     pure_then (if \<not> type_is_int val
                then Inl (ValueError ''Invalid acceleration value'')
                else Inr ()) (\<lambda>u.
     pure_then (COMMANDS_get COMMANDS ''define_home'') (\<lambda>m.
     pure_then (format_command COMMANDS m addr axis val) (\<lambda>cmd.
     and_then (send_command dev cmd False) (\<lambda>r. returns ()))))))"

definition get_home :: "commands \<Rightarrow> device \<Rightarrow> pyval \<Rightarrow> pyval \<Rightarrow> string action" where
  "get_home COMMANDS dev addr axis =
     pure_then (COMMANDS_get COMMANDS ''query_home'') (\<lambda>m.
     pure_then (format_command COMMANDS m addr axis PNone) (\<lambda>cmd.
     and_then (send_command dev cmd True) (\<lambda>r.
     pure_then (parse_reply r) returns)))"

definition finished_moving :: "commands \<Rightarrow> device \<Rightarrow> pyval \<Rightarrow> pyval \<Rightarrow> bool action" where
  "finished_moving COMMANDS dev addr axis =
     pure_then (COMMANDS_get COMMANDS ''query_motion_done'') (\<lambda>m.
     pure_then (format_command COMMANDS m addr axis PNone) (\<lambda>cmd.
     and_then (send_command dev cmd True) (\<lambda>r.
     pure_then (parse_reply r) (\<lambda>reply.
     pure_then (last_char reply) (\<lambda>c. returns (c = CHR ''1''))))))"

definition move_indefinitely :: "commands \<Rightarrow> device \<Rightarrow> pyval \<Rightarrow> pyval \<Rightarrow> pyval \<Rightarrow> unit action" where
  "move_indefinitely COMMANDS dev addr axis direction =
     pure_then (if \<not> (py_eq_str direction ''+'' \<or> py_eq_str direction ''-'')
                then Inl (ValueError ''Direction must be + or -'')
                else Inr ()) (\<lambda>u.
     pure_then (verify_address_value addr) (\<lambda>u.
     pure_then (verify_axis_value axis) (\<lambda>u.
     pure_then (COMMANDS_get COMMANDS ''move_indefinitely'') (\<lambda>m.
     pure_then (format_command COMMANDS m addr axis direction) (\<lambda>cmd.
     and_then (send_command dev cmd False) (\<lambda>r. returns ()))))))"

text \<open>
  The loop \<^verbatim>\<open>while not self.finished_moving(addr, axis): pass\<close> that ends
  \<^verbatim>\<open>move_to_target\<close> and \<^verbatim>\<open>move_relative\<close>. It has no bound: on a script that
  never reports the motion done it does not return, which is the value \<open>None\<close>.
\<close>

partial_function (option) while_not_finished_moving ::
  "commands \<Rightarrow> device \<Rightarrow> pyval \<Rightarrow> pyval \<Rightarrow> channel \<Rightarrow> ((error + unit) \<times> channel) option" where
  "while_not_finished_moving COMMANDS dev addr axis ch =
     (case finished_moving COMMANDS dev addr axis ch of
        (Inl e, ch') \<Rightarrow> Some (Inl e, ch')
      | (Inr fin, ch') \<Rightarrow>
          if \<not> fin then while_not_finished_moving COMMANDS dev addr axis ch'
          else Some (Inr (), ch'))"

declare while_not_finished_moving.simps [code]

definition move_to_target ::
  "commands \<Rightarrow> device \<Rightarrow> pyval \<Rightarrow> pyval \<Rightarrow> pyval \<Rightarrow> channel \<Rightarrow> ((error + unit) \<times> channel) option" where
  "move_to_target COMMANDS dev addr axis target ch =
     (case (pure_then (verify_address_value addr) (\<lambda>u.
            pure_then (verify_axis_value axis) (\<lambda>u.
            pure_then (if \<not> type_is_int target
                       then Inl (ValueError ''Invalid target position'')
                       else Inr ()) (\<lambda>u.
            pure_then (COMMANDS_get COMMANDS ''move_to_target_pos'') (\<lambda>m.
            pure_then (format_command COMMANDS m addr axis target) (\<lambda>cmd.
            and_then (send_command dev cmd False) (\<lambda>r. returns ()))))))) ch of
        (Inl e, ch') \<Rightarrow> Some (Inl e, ch')
      | (Inr u, ch') \<Rightarrow> while_not_finished_moving COMMANDS dev addr axis ch')"

definition get_target :: "commands \<Rightarrow> device \<Rightarrow> pyval \<Rightarrow> pyval \<Rightarrow> int action" where
  "get_target COMMANDS dev addr axis =
     pure_then (COMMANDS_get COMMANDS ''query_target_pos'') (\<lambda>m.
     pure_then (format_command COMMANDS m addr axis PNone) (\<lambda>cmd.
     and_then (send_command dev cmd True) (\<lambda>r.
     pure_then (parse_reply r) (\<lambda>reply.
     pure_then (py_int reply) returns))))"

definition move_relative ::
  "commands \<Rightarrow> device \<Rightarrow> pyval \<Rightarrow> pyval \<Rightarrow> pyval \<Rightarrow> channel \<Rightarrow> ((error + unit) \<times> channel) option" where
  "move_relative COMMANDS dev addr axis steps ch =
     (case (pure_then (verify_address_value addr) (\<lambda>u.
            pure_then (verify_axis_value axis) (\<lambda>u.
            pure_then (if \<not> type_is_int steps
                       then Inl (ValueError ''Invalid target position'')
                       else Inr ()) (\<lambda>u.
            pure_then (COMMANDS_get COMMANDS ''move_relative'') (\<lambda>m.
            pure_then (format_command COMMANDS m addr axis steps) (\<lambda>cmd.
            and_then (send_command dev cmd False) (\<lambda>r. returns ()))))))) ch of
        (Inl e, ch') \<Rightarrow> Some (Inl e, ch')
      | (Inr u, ch') \<Rightarrow> while_not_finished_moving COMMANDS dev addr axis ch')"

definition get_relative_target :: "commands \<Rightarrow> device \<Rightarrow> pyval \<Rightarrow> pyval \<Rightarrow> string action" where
  "get_relative_target COMMANDS dev addr axis =
     pure_then (COMMANDS_get COMMANDS ''query_target_rel'') (\<lambda>m.
     pure_then (format_command COMMANDS m addr axis PNone) (\<lambda>cmd.
     and_then (send_command dev cmd True) (\<lambda>r.
     pure_then (parse_reply r) returns)))"

definition detect_motors :: "commands \<Rightarrow> device \<Rightarrow> pyval \<Rightarrow> unit action" where
  "detect_motors COMMANDS dev addr =
     pure_then (verify_address_value addr) (\<lambda>u.
     pure_then (COMMANDS_get COMMANDS ''motor_check'') (\<lambda>m.
     pure_then (format_command COMMANDS m addr PNone PNone) (\<lambda>cmd.
     and_then (send_command dev cmd False) (\<lambda>r. returns ()))))"

definition set_motor_type :: "commands \<Rightarrow> device \<Rightarrow> pyval \<Rightarrow> pyval \<Rightarrow> pyval \<Rightarrow> unit action" where
  "set_motor_type COMMANDS dev addr axis val =
     pure_then (verify_address_value addr) (\<lambda>u.
     pure_then (verify_axis_value axis) (\<lambda>u.
     pure_then (if \<not> (type_is_int val \<and> 0 \<le> the_int val \<and> the_int val \<le> 3)
                then Inl (ValueError ''Invalid motor type'')
                else Inr ()) (\<lambda>u.
     pure_then (COMMANDS_get COMMANDS ''set_motor_type'') (\<lambda>m.
     pure_then (format_command COMMANDS m addr axis val) (\<lambda>cmd.
     and_then (send_command dev cmd False) (\<lambda>r. returns ()))))))"

definition get_motor_type :: "commands \<Rightarrow> device \<Rightarrow> pyval \<Rightarrow> pyval \<Rightarrow> string action" where
  "get_motor_type COMMANDS dev addr axis =
     pure_then (COMMANDS_get COMMANDS ''query_motor_type'') (\<lambda>m.
     pure_then (format_command COMMANDS m addr axis PNone) (\<lambda>cmd.
     and_then (send_command dev cmd True) (\<lambda>r.
     pure_then (parse_reply r) (\<lambda>reply.
     pure_then (last_char reply) (\<lambda>c.
     pure_then (MOTOR_TYPE_get [c]) returns)))))"

text \<open>
  \<^verbatim>\<open>set_address(addr, val = 1)\<close>. The call is
  \<^verbatim>\<open>self.format_command(COMMANDS['set_address'], addr, val)\<close>: the new address is
  the third positional argument of \<^verbatim>\<open>format_command\<close>, its \<^verbatim>\<open>axis\<close>.
\<close>

definition set_address :: "commands \<Rightarrow> device \<Rightarrow> pyval \<Rightarrow> pyval \<Rightarrow> unit action" where
  "set_address COMMANDS dev addr val =
     pure_then (verify_address_value addr) (\<lambda>u.
     pure_then (if \<not> (type_is_int val \<and> 1 \<le> the_int val \<and> the_int val \<le> 31)
                then Inl (ValueError ''New address must be between 1 and 31'')
                else Inr ()) (\<lambda>u.
     pure_then (COMMANDS_get COMMANDS ''set_address'') (\<lambda>m.
     pure_then (format_command COMMANDS m addr val PNone) (\<lambda>cmd.
     and_then (send_command dev cmd False) (\<lambda>r. returns ())))))"

definition get_address :: "commands \<Rightarrow> device \<Rightarrow> pyval \<Rightarrow> int action" where
  "get_address COMMANDS dev addr =
     pure_then (verify_address_value addr) (\<lambda>u.
     pure_then (COMMANDS_get COMMANDS ''query_address'') (\<lambda>m.
     pure_then (format_command COMMANDS m addr PNone PNone) (\<lambda>cmd.
     and_then (send_command dev cmd True) (\<lambda>r.
     pure_then (parse_reply r) (\<lambda>reply.
     pure_then (py_int reply) returns)))))"

definition is_scan_done :: "commands \<Rightarrow> device \<Rightarrow> bool action" where
  "is_scan_done COMMANDS dev =
     pure_then (COMMANDS_get COMMANDS ''query_scan_status'') (\<lambda>m.
     pure_then (format_command COMMANDS m (PInt 1) PNone PNone) (\<lambda>cmd.
     and_then (send_command dev cmd True) (\<lambda>r.
     pure_then (parse_reply r) (\<lambda>reply.
     pure_then (last_char reply) (\<lambda>c. returns (c = CHR ''1''))))))"

definition get_controller_address_map :: "commands \<Rightarrow> device \<Rightarrow> int list action" where
  "get_controller_address_map COMMANDS dev =
     pure_then (COMMANDS_get COMMANDS ''query_RS485_addr'') (\<lambda>m.
     pure_then (format_command COMMANDS m (PInt 1) PNone PNone) (\<lambda>cmd.
     and_then (send_command dev cmd True) (\<lambda>r.
     pure_then (parse_reply r) (\<lambda>reply.
     pure_then (py_int reply) (\<lambda>n.
     pure_then (comprehension (\<lambda>s. py_int [s]) (format_b n)) (\<lambda>address_map.
     returns (rev address_map)))))))"

definition stop_motion :: "commands \<Rightarrow> device \<Rightarrow> pyval \<Rightarrow> pyval \<Rightarrow> unit action" where
  "stop_motion COMMANDS dev addr axis =
     pure_then (verify_address_value addr) (\<lambda>u.
     pure_then (verify_axis_value axis) (\<lambda>u.
     pure_then (COMMANDS_get COMMANDS ''stop'') (\<lambda>m.
     pure_then (format_command COMMANDS m addr axis PNone) (\<lambda>cmd.
     and_then (send_command dev cmd False) (\<lambda>r. returns ())))))"

section \<open>Scripts and predicates for the statements\<close>

text \<open>A channel on which nothing has happened, and a controller that answers from a list.\<close>

definition fresh :: channel where
  "fresh = \<lparr>writes = [], reads = 0\<rparr>"

definition scripted :: "byte list list \<Rightarrow> device" where
  "scripted replies n = (if n < length replies then Some (replies ! n) else None)"

text \<open>
  \<open>status_reply dev n fin\<close>: the \<open>n\<close>-th read is answered, the parsed answer is
  not empty, and its last character is \<open>1\<close> exactly when \<open>fin\<close> holds.
\<close>

definition status_reply :: "device \<Rightarrow> nat \<Rightarrow> bool \<Rightarrow> bool" where
  "status_reply dev n fin =
     (case dev n of
        None \<Rightarrow> False
      | Some raw \<Rightarrow>
          (case parse_reply (Some (take 100 raw)) of
             Inl e \<Rightarrow> False
           | Inr reply \<Rightarrow> reply \<noteq> [] \<and> (last reply = CHR ''1'') = fin))"

text \<open>
  The domains of the two arguments, as \<open>verify_address_value\<close> and
  \<open>verify_axis_value\<close> test them, and the error an operation raises when it checks
  the address first and the axis second.
\<close>

definition address_in_domain :: "pyval \<Rightarrow> bool" where
  "address_in_domain addr = (py_eq_int addr 1 \<or> py_eq_int addr 2)"

definition axis_in_domain :: "pyval \<Rightarrow> bool" where
  "axis_in_domain axis = (type_is_int axis \<and> 1 \<le> the_int axis \<and> the_int axis \<le> 4)"

definition invalid_error :: "pyval \<Rightarrow> pyval \<Rightarrow> error" where
  "invalid_error addr axis =
     (if \<not> address_in_domain addr then ValueError ''Invalid address value''
      else ValueError ''Invalid axis value'')"

text \<open>
  An operation without checks of its own looks its mnemonic up first and then
  calls \<open>format_command\<close>: a name missing from the table raises the lookup's
  \<open>KeyError\<close> before the address and the axis are looked at.
\<close>

definition formatter_error :: "commands \<Rightarrow> string \<Rightarrow> pyval \<Rightarrow> pyval \<Rightarrow> error" where
  "formatter_error COMMANDS name addr axis =
     (case COMMANDS_get COMMANDS name of Inl e \<Rightarrow> e | Inr m \<Rightarrow> invalid_error addr axis)"

section \<open>Properties of the formatter\<close>

lemma COMMANDS_get_values:
  "COMMANDS_get COMMANDS name = Inr m \<Longrightarrow> m \<in> set (COMMANDS_values COMMANDS)"
proof -
  assume "COMMANDS_get COMMANDS name = Inr m"
  then have look: "map_of COMMANDS name = Some m"
    by (simp add: COMMANDS_get_def split: option.splits)
  then have "(name, m) \<in> set COMMANDS"
    by (rule map_of_SomeD)
  with look show ?thesis
    by (force simp: COMMANDS_values_def)
qed

lemma verify_command_get:
  "COMMANDS_get COMMANDS name = Inr m \<Longrightarrow> verify_command COMMANDS m = Inr ()"
  by (simp add: verify_command_def COMMANDS_get_values)

lemma verify_address_value_ok:
  "py_eq_int addr 1 \<or> py_eq_int addr 2 \<Longrightarrow> verify_address_value addr = Inr ()"
  by (auto simp: verify_address_value_def)

lemma verify_address_value_bad:
  "\<not> (py_eq_int addr 1 \<or> py_eq_int addr 2) \<Longrightarrow>
   verify_address_value addr = Inl (ValueError ''Invalid address value'')"
  by (simp add: verify_address_value_def)

lemma verify_axis_value_ok:
  "1 \<le> a \<Longrightarrow> a \<le> 4 \<Longrightarrow> verify_axis_value (PInt a) = Inr ()"
  by (simp add: verify_axis_value_def)

lemma verify_axis_value_bad:
  "\<not> (type_is_int axis \<and> 1 \<le> the_int axis \<and> the_int axis \<le> 4) \<Longrightarrow>
   verify_axis_value axis = Inl (ValueError ''Invalid axis value'')"
  by (simp add: verify_axis_value_def)

lemma format_command_axis:
  assumes "verify_command COMMANDS m = Inr ()"
    and "py_eq_int addr 1 \<or> py_eq_int addr 2"
    and "1 \<le> a" and "a \<le> 4"
  shows "format_command COMMANDS m addr (PInt a) val =
           Inr (py_str addr @ ''>'' @ str_int a @ m @ (if val \<noteq> PNone then py_str val else []) @ [CR])"
  using assms
  by (simp add: format_command_def verify_address_value_ok verify_axis_value_ok)

lemma format_command_no_axis:
  assumes "verify_command COMMANDS m = Inr ()"
    and "py_eq_int addr 1 \<or> py_eq_int addr 2"
    and "\<not> truthy axis"
  shows "format_command COMMANDS m addr axis val =
           Inr (py_str addr @ ''>'' @ m @ (if val \<noteq> PNone then py_str val else []) @ [CR])"
  using assms
  by (simp add: format_command_def verify_address_value_ok)

lemma str_int_digit: "0 \<le> i \<Longrightarrow> i < 10 \<Longrightarrow> str_int i = [digit_char (nat i)]"
  by (simp add: str_int_def)

lemma values_8742: "COMMANDS_values COMMANDS_8742 = map snd COMMANDS_8742"
  by (simp add: COMMANDS_values_def COMMANDS_8742_def)

text \<open>
  C4. For a mnemonic of the command table, an address 1 or 2, an axis from 1 to 4
  and a value, \<open>format_command\<close> returns the address, \<open>>\<close>, the axis digit, the
  mnemonic, the value's string form and one carriage return; with the axis omitted
  (\<open>None\<close>) the axis digit is missing from that string, and with the value omitted
  the value segment is missing. The result is a function of the arguments alone:
  \<open>format_command\<close> takes no channel and returns none.
\<close>

theorem format_command_wire_format:
  assumes "m \<in> set (COMMANDS_values COMMANDS)"
    and "addr = 1 \<or> addr = 2"
    and "1 \<le> axis" and "axis \<le> 4"
    and "val \<noteq> PNone"
  shows "format_command COMMANDS m (PInt addr) (PInt axis) val =
           Inr (str_int addr @ ''>'' @ str_int axis @ m @ py_str val @ [CR]) \<and>
         format_command COMMANDS m (PInt addr) PNone val =
           Inr (str_int addr @ ''>'' @ m @ py_str val @ [CR]) \<and>
         format_command COMMANDS m (PInt addr) (PInt axis) PNone =
           Inr (str_int addr @ ''>'' @ str_int axis @ m @ [CR]) \<and>
         format_command COMMANDS m (PInt addr) PNone PNone =
           Inr (str_int addr @ ''>'' @ m @ [CR])"
proof -
  from assms(1) have vc: "verify_command COMMANDS m = Inr ()"
    by (simp add: verify_command_def)
  from assms(2) have ad: "py_eq_int (PInt addr) 1 \<or> py_eq_int (PInt addr) 2"
    by simp
  have "format_command COMMANDS m (PInt addr) (PInt axis) val =
           Inr (str_int addr @ ''>'' @ str_int axis @ m @ py_str val @ [CR])"
    using format_command_axis [OF vc ad assms(3) assms(4), of val] assms(5) by simp
  moreover have "format_command COMMANDS m (PInt addr) PNone val =
           Inr (str_int addr @ ''>'' @ m @ py_str val @ [CR])"
    using format_command_no_axis [OF vc ad, of PNone val] assms(5) by simp
  moreover have "format_command COMMANDS m (PInt addr) (PInt axis) PNone =
           Inr (str_int addr @ ''>'' @ str_int axis @ m @ [CR])"
    using format_command_axis [OF vc ad assms(3) assms(4), of PNone] by simp
  moreover have "format_command COMMANDS m (PInt addr) PNone PNone =
           Inr (str_int addr @ ''>'' @ m @ [CR])"
    using format_command_no_axis [OF vc ad, of PNone PNone] by simp
  ultimately show ?thesis by simp
qed

theorem format_command_wire_format_witness:
  "format_command COMMANDS_8742 ''VA'' (PInt 1) (PInt 1) (PInt 500) = Inr (''1>1VA500'' @ [CR]) \<and>
   format_command COMMANDS_8742 ''VA'' (PInt 1) PNone (PInt 500) = Inr (''1>VA500'' @ [CR]) \<and>
   format_command COMMANDS_8742 ''VA'' (PInt 1) (PInt 1) PNone = Inr (''1>1VA'' @ [CR]) \<and>
   format_command COMMANDS_8742 ''VA'' (PInt 1) PNone PNone = Inr (''1>VA'' @ [CR])"
proof -
  have h1: "''VA'' \<in> set (COMMANDS_values COMMANDS_8742)"
    by (simp add: values_8742) (simp add: COMMANDS_8742_def)
  have h2: "(1::int) = 1 \<or> (1::int) = 2" by simp
  have h5: "PInt 500 \<noteq> PNone" by simp
  show ?thesis
    using format_command_wire_format [OF h1 h2, of 1 "PInt 500"] h5
    by (simp add: str_int_def)
qed

text \<open>
  C9. For a mnemonic of the command table, an address 1 or 2 and any value (given
  or omitted), \<open>format_command\<close> with axis 0 raises nothing and returns the very
  string it returns with the axis omitted: address, \<open>>\<close>, mnemonic, value,
  carriage return, without an axis digit. Axis 0 counts as no axis and is never
  handed to \<open>verify_axis_value\<close>.
\<close>

theorem format_command_axis_zero:
  assumes "m \<in> set (COMMANDS_values COMMANDS)"
    and "addr = 1 \<or> addr = 2"
  shows "format_command COMMANDS m (PInt addr) (PInt 0) val =
           format_command COMMANDS m (PInt addr) PNone val \<and>
         format_command COMMANDS m (PInt addr) (PInt 0) val =
           Inr (str_int addr @ ''>'' @ m @ (if val = PNone then [] else py_str val) @ [CR])"
proof -
  from assms(1) have vc: "verify_command COMMANDS m = Inr ()"
    by (simp add: verify_command_def)
  from assms(2) have ad: "py_eq_int (PInt addr) 1 \<or> py_eq_int (PInt addr) 2"
    by simp
  show ?thesis
    using format_command_no_axis [OF vc ad, of "PInt 0" val]
      format_command_no_axis [OF vc ad, of PNone val]
    by simp
qed

theorem format_command_axis_zero_witness:
  "format_command COMMANDS_8742 ''MD?'' (PInt 2) (PInt 0) (PInt 7) =
     format_command COMMANDS_8742 ''MD?'' (PInt 2) PNone (PInt 7) \<and>
   format_command COMMANDS_8742 ''MD?'' (PInt 2) (PInt 0) (PInt 7) = Inr (''2>MD?7'' @ [CR])"
proof -
  have h1: "''MD?'' \<in> set (COMMANDS_values COMMANDS_8742)"
    by (simp add: values_8742) (simp add: COMMANDS_8742_def)
  have h2: "(2::int) = 1 \<or> (2::int) = 2" by simp
  show ?thesis
    using format_command_axis_zero [OF h1 h2, of "PInt 7"]
    by (auto simp: str_int_def)
qed

section \<open>Properties of the parser and of the operations\<close>

lemma send_command_no_reply:
  "send_command dev cmd False ch = (Inr None, ch\<lparr>writes := writes ch @ [cmd]\<rparr>)"
  by (simp add: send_command_def and_then_def ep_out_write_def returns_def)

lemma send_command_reply:
  "send_command dev cmd True ch =
     (case dev (reads ch) of
        None \<Rightarrow> (Inl TransportError, ch\<lparr>writes := writes ch @ [cmd], reads := Suc (reads ch)\<rparr>)
      | Some raw \<Rightarrow>
          (Inr (Some (take 100 raw)), ch\<lparr>writes := writes ch @ [cmd], reads := Suc (reads ch)\<rparr>))"
  by (simp add: send_command_def and_then_def ep_out_write_def ep_in_read_def returns_def
      split: option.splits)

lemma chr_py_simps:
  "chr_py 0x30 = CHR ''0''" "chr_py 0x31 = CHR ''1''" "chr_py 0x32 = CHR ''2''"
  "chr_py 0x33 = CHR ''3''" "chr_py 0x35 = CHR ''5''" "chr_py 0x37 = CHR ''7''"
  "chr_py 0x36 = CHR ''6''"
  "chr_py 0x3E = CHR ''>''" "chr_py 0x0D = CHR 0x0D" "chr_py 0x0A = CHR 0x0A"
  by code_simp+

lemma isspace_simps:
  "isspace (CHR 0x0D)" "isspace (CHR 0x0A)"
  "\<not> isspace (CHR ''0'')" "\<not> isspace (CHR ''1'')" "\<not> isspace (CHR ''2'')"
  "\<not> isspace (CHR ''3'')" "\<not> isspace (CHR ''5'')" "\<not> isspace (CHR ''7'')"
  "\<not> isspace (CHR ''6'')"
  "\<not> isspace (CHR ''>'')"
  by (simp_all add: isspace_def)

text \<open>
  C1 as stated fails: the reply consisting of the single byte \<open>1\<close> has fewer than two
  characters after decoding and right-stripping, and \<open>parse_reply\<close> returns the
  empty string for it; no error is raised.
\<close>

theorem parse_reply_short_counterexample:
  "length (rstrip (map chr_py [0x31])) < 2 \<and> parse_reply (Some [0x31]) = Inr []"
  by (simp add: rstrip_def chr_py_simps isspace_simps)

text \<open>
  C1, amended. For every raw reply whose decoded, right-stripped text has fewer
  than two characters, \<open>parse_reply\<close> raises nothing and returns the empty string:
  the slice \<^verbatim>\<open>[2:]\<close> of a short string is empty, and the code has no length check.
\<close>

theorem parse_reply_short:
  "length (rstrip (map chr_py raw)) < 2 \<Longrightarrow> parse_reply (Some raw) = Inr []"
  by simp

theorem parse_reply_short_witness:
  "length (rstrip (map chr_py [0x31, 0x0D, 0x0A])) < 2 \<and>
   parse_reply (Some [0x31, 0x0D, 0x0A]) = Inr []"
proof -
  have h: "length (rstrip (map chr_py [0x31, 0x0D, 0x0A])) < 2"
    by (simp add: rstrip_def chr_py_simps isspace_simps)
  show ?thesis
    using h parse_reply_short [OF h] by simp
qed

lemma get_8742:
  "COMMANDS_get COMMANDS_8742 ''set_address'' = Inr ''SA''"
  "COMMANDS_get COMMANDS_8742 ''query_motion_done'' = Inr ''MD?''"
  "COMMANDS_get COMMANDS_8742 ''query_scan_status'' = Inr ''SD?''"
  "COMMANDS_get COMMANDS_8742 ''query_motor_type'' = Inr ''QM?''"
  "COMMANDS_get COMMANDS_8742 ''query_RS485_addr'' = Inr ''SC?''"
  "COMMANDS_get COMMANDS_8742 ''move_to_target_pos'' = Inr ''PA''"
  "COMMANDS_get COMMANDS_8742 ''move_relative'' = Inr ''PR''"
  by (simp_all add: COMMANDS_get_def COMMANDS_8742_def)

text \<open>
  C2. \<open>set_address(1, 5)\<close> is within the documented domain (address 1, new
  address between 1 and 31), yet it raises \<open>Invalid axis value\<close> and writes nothing:
  the new address is passed to \<open>format_command\<close> in the position of the axis. With
  a new address from 1 to 4 the command is sent, with the value in front of the
  mnemonic (\<open>1>3SA\<close>) instead of behind it.
\<close>

theorem set_address_new_address_5:
  "set_address COMMANDS_8742 (scripted []) (PInt 1) (PInt 5) fresh =
     (Inl (ValueError ''Invalid axis value''), fresh) \<and>
   set_address COMMANDS_8742 (scripted []) (PInt 1) (PInt 3) fresh =
     (Inr (), fresh\<lparr>writes := [''1>3SA'' @ [CR]]\<rparr>)"
proof -
  have vc: "verify_command COMMANDS_8742 ''SA'' = Inr ()"
    by (rule verify_command_get [OF get_8742(1)])
  show ?thesis
    by (simp add: set_address_def pure_then_def and_then_def returns_def send_command_no_reply
        verify_address_value_def verify_axis_value_def vc get_8742 format_command_def
        str_int_def fresh_def)
qed

text \<open>
  C10. For an address 1 or 2 and an axis from 1 to 4, \<open>set_home\<close> with \<open>val\<close> left
  at its default \<open>None\<close> raises a \<open>ValueError\<close> and leaves the channel as it was:
  nothing is written, and no home position is defined.
\<close>

theorem set_home_without_val:
  assumes "addr = 1 \<or> addr = 2" and "1 \<le> axis" and "axis \<le> 4"
  shows "set_home COMMANDS dev (PInt addr) (PInt axis) PNone ch =
           (Inl (ValueError ''Invalid acceleration value''), ch)"
  using assms
  by (auto simp: set_home_def pure_then_def verify_address_value_def verify_axis_value_def)

theorem set_home_without_val_witness:
  "set_home COMMANDS_8742 (scripted []) (PInt 1) (PInt 1) PNone fresh =
     (Inl (ValueError ''Invalid acceleration value''), fresh)"
proof -
  have h1: "(1::int) = 1 \<or> (1::int) = 2" by simp
  have h2: "(1::int) \<le> 1" by simp
  have h3: "(1::int) \<le> 4" by simp
  show ?thesis
    using set_home_without_val [OF h1 h2 h3] by simp
qed


section \<open>Status queries, motor type and the move operations\<close>

lemma last_char_nonempty: "reply \<noteq> [] \<Longrightarrow> last_char reply = Inr (last reply)"
  by (cases reply) simp_all

lemma finished_moving_eval:
  assumes "COMMANDS_get COMMANDS ''query_motion_done'' = Inr m"
    and "format_command COMMANDS m addr axis PNone = Inr cmd"
  shows "finished_moving COMMANDS dev addr axis ch =
     (case dev (reads ch) of
        None \<Rightarrow> (Inl TransportError, ch\<lparr>writes := writes ch @ [cmd], reads := Suc (reads ch)\<rparr>)
      | Some raw \<Rightarrow>
          (case last_char (drop 2 (rstrip (map chr_py (take 100 raw)))) of
             Inl e \<Rightarrow> (Inl e, ch\<lparr>writes := writes ch @ [cmd], reads := Suc (reads ch)\<rparr>)
           | Inr c \<Rightarrow> (Inr (c = CHR ''1''),
                        ch\<lparr>writes := writes ch @ [cmd], reads := Suc (reads ch)\<rparr>)))"
  using assms
  by (simp add: finished_moving_def pure_then_def and_then_def returns_def send_command_reply
      split: option.splits sum.splits)

lemma is_scan_done_eval:
  assumes "COMMANDS_get COMMANDS ''query_scan_status'' = Inr m"
  shows "is_scan_done COMMANDS dev ch =
     (case dev (reads ch) of
        None \<Rightarrow> (Inl TransportError,
                  ch\<lparr>writes := writes ch @ [''1>'' @ m @ [CR]], reads := Suc (reads ch)\<rparr>)
      | Some raw \<Rightarrow>
          (case last_char (drop 2 (rstrip (map chr_py (take 100 raw)))) of
             Inl e \<Rightarrow> (Inl e, ch\<lparr>writes := writes ch @ [''1>'' @ m @ [CR]], reads := Suc (reads ch)\<rparr>)
           | Inr c \<Rightarrow> (Inr (c = CHR ''1''),
                        ch\<lparr>writes := writes ch @ [''1>'' @ m @ [CR]], reads := Suc (reads ch)\<rparr>)))"
proof -
  have "format_command COMMANDS m (PInt 1) PNone PNone = Inr (''1>'' @ m @ [CR])"
    using format_command_no_axis [OF verify_command_get [OF assms], of "PInt 1" PNone PNone]
    by (simp add: str_int_def)
  with assms show ?thesis
    by (simp add: is_scan_done_def pure_then_def and_then_def returns_def send_command_reply
        split: option.splits sum.splits)
qed

text \<open>
  C8. When the status query is sent and answered, and the parsed answer is not
  empty, \<open>finished_moving\<close> returns true exactly when the last character of the
  parsed answer is \<open>1\<close>, and so does \<open>is_scan_done\<close>; what precedes the last
  character plays no part.
\<close>

theorem status_queries_last_character:
  assumes "COMMANDS_get COMMANDS ''query_motion_done'' = Inr m"
    and "format_command COMMANDS m addr axis PNone = Inr cmd"
    and "COMMANDS_get COMMANDS ''query_scan_status'' = Inr m'"
    and "dev (reads ch) = Some raw"
    and "parse_reply (Some (take 100 raw)) = Inr reply"
    and "reply \<noteq> []"
  shows "fst (finished_moving COMMANDS dev addr axis ch) = Inr (last reply = CHR ''1'') \<and>
         fst (is_scan_done COMMANDS dev ch) = Inr (last reply = CHR ''1'')"
proof -
  from assms(5) have r: "drop 2 (rstrip (map chr_py (take 100 raw))) = reply"
    by simp
  have "fst (finished_moving COMMANDS dev addr axis ch) = Inr (last reply = CHR ''1'')"
    by (simp add: finished_moving_eval [OF assms(1) assms(2)] assms(4) r
        last_char_nonempty [OF assms(6)])
  moreover have "fst (is_scan_done COMMANDS dev ch) = Inr (last reply = CHR ''1'')"
    by (simp add: is_scan_done_eval [OF assms(3)] assms(4) r last_char_nonempty [OF assms(6)])
  ultimately show ?thesis by simp
qed

lemma format_8742_MD:
  "format_command COMMANDS_8742 ''MD?'' (PInt 1) (PInt 1) PNone = Inr (''1>1MD?'' @ [CR])"
  using format_command_axis [OF verify_command_get [OF get_8742(2)], of "PInt 1" 1 PNone]
  by (simp add: str_int_def)

lemma parse_examples:
  "parse_reply (Some (take 100 [0x31, 0x3E, 0x30, 0x0D])) = Inr ''0''"
  "parse_reply (Some (take 100 [0x31, 0x3E, 0x31, 0x0D])) = Inr ''1''"
  "parse_reply (Some (take 100 [0x31, 0x3E, 0x32, 0x0D])) = Inr ''2''"
  "parse_reply (Some (take 100 [0x31, 0x3E, 0x33, 0x0D])) = Inr ''3''"
  "parse_reply (Some (take 100 [0x31, 0x3E, 0x35, 0x0D])) = Inr ''5''"
  "parse_reply (Some (take 100 [0x31, 0x3E, 0x37, 0x0D])) = Inr ''7''"
  "parse_reply (Some (take 100 [0x31, 0x3E, 0x37, 0x30, 0x0D, 0x0A])) = Inr ''70''"
  "parse_reply (Some (take 100 [0x31, 0x3E, 0x37, 0x31, 0x0D, 0x0A])) = Inr ''71''"
  "parse_reply (Some (take 100 [0x31, 0x3E, 0x32, 0x36, 0x0D])) = Inr ''26''"
  by (simp_all add: rstrip_def chr_py_simps isspace_simps)

theorem status_queries_last_character_witness:
  "fst (finished_moving COMMANDS_8742 (scripted [[0x31, 0x3E, 0x37, 0x31, 0x0D, 0x0A]])
          (PInt 1) (PInt 1) fresh) = Inr True \<and>
   fst (is_scan_done COMMANDS_8742 (scripted [[0x31, 0x3E, 0x37, 0x31, 0x0D, 0x0A]]) fresh) = Inr True"
proof -
  have h4: "scripted [[0x31, 0x3E, 0x37, 0x31, 0x0D, 0x0A]] (reads fresh) =
      Some [0x31, 0x3E, 0x37, 0x31, 0x0D, 0x0A]"
    by (simp add: scripted_def fresh_def)
  have h6: "''71'' \<noteq> []" by simp
  show ?thesis
    using status_queries_last_character
      [where dev = "scripted [[0x31, 0x3E, 0x37, 0x31, 0x0D, 0x0A]]" and ch = fresh,
        OF get_8742(2) format_8742_MD get_8742(3) h4 parse_examples(8) h6]
    by simp
qed


lemma MOTOR_TYPE_get_char:
  "MOTOR_TYPE_get [c] =
     (if c = CHR ''0'' then Inr ''No motor connected''
      else if c = CHR ''1'' then Inr ''Motor Unknown''
      else if c = CHR ''2'' then Inr (CHR 0x27 # ''Tiny'' @ CHR 0x27 # '' Motor'')
      else if c = CHR ''3'' then Inr (CHR 0x27 # ''Standard'' @ CHR 0x27 # '' Motor'')
      else Inl (KeyError [c]))"
  by (simp add: MOTOR_TYPE_get_def MOTOR_TYPE_def)

text \<open>
  C7. When the motor-type query is sent and answered with a non-empty parsed
  answer, \<open>get_motor_type\<close> returns the label of its last character: \<open>0\<close>, \<open>1\<close>,
  \<open>2\<close>, \<open>3\<close> give "No motor connected", "Motor Unknown", "'Tiny' Motor",
  "'Standard' Motor"; any other last character raises the lookup error of
  \<open>MOTOR_TYPE\<close> (a \<open>KeyError\<close> carrying that character).
\<close>

theorem get_motor_type_labels:
  assumes "COMMANDS_get COMMANDS ''query_motor_type'' = Inr m"
    and "format_command COMMANDS m addr axis PNone = Inr cmd"
    and "dev (reads ch) = Some raw"
    and "parse_reply (Some (take 100 raw)) = Inr reply"
    and "reply \<noteq> []"
  shows "fst (get_motor_type COMMANDS dev addr axis ch) =
     (if last reply = CHR ''0'' then Inr ''No motor connected''
      else if last reply = CHR ''1'' then Inr ''Motor Unknown''
      else if last reply = CHR ''2'' then Inr (CHR 0x27 # ''Tiny'' @ CHR 0x27 # '' Motor'')
      else if last reply = CHR ''3'' then Inr (CHR 0x27 # ''Standard'' @ CHR 0x27 # '' Motor'')
      else Inl (KeyError [last reply]))"
proof -
  from assms(4) have r: "drop 2 (rstrip (map chr_py (take 100 raw))) = reply"
    by simp
  have "fst (get_motor_type COMMANDS dev addr axis ch) = MOTOR_TYPE_get [last reply]"
    using assms(1) assms(2) assms(3) r last_char_nonempty [OF assms(5)]
    by (simp add: get_motor_type_def pure_then_def and_then_def returns_def send_command_reply
        split: sum.splits)
  then show ?thesis
    by (simp only: MOTOR_TYPE_get_char)
qed

lemma format_8742_QM:
  "format_command COMMANDS_8742 ''QM?'' (PInt 1) (PInt 1) PNone = Inr (''1>1QM?'' @ [CR])"
  using format_command_axis [OF verify_command_get [OF get_8742(4)], of "PInt 1" 1 PNone]
  by (simp add: str_int_def)

theorem get_motor_type_labels_witness:
  "fst (get_motor_type COMMANDS_8742 (scripted [[0x31, 0x3E, 0x32, 0x0D]]) (PInt 1) (PInt 1) fresh) =
     Inr (CHR 0x27 # ''Tiny'' @ CHR 0x27 # '' Motor'') \<and>
   fst (get_motor_type COMMANDS_8742 (scripted [[0x31, 0x3E, 0x37, 0x0D]]) (PInt 1) (PInt 1) fresh) =
     Inl (KeyError ''7'')"
proof -
  have a: "scripted [[0x31, 0x3E, 0x32, 0x0D]] (reads fresh) = Some [0x31, 0x3E, 0x32, 0x0D]"
    by (simp add: scripted_def fresh_def)
  have b: "scripted [[0x31, 0x3E, 0x37, 0x0D]] (reads fresh) = Some [0x31, 0x3E, 0x37, 0x0D]"
    by (simp add: scripted_def fresh_def)
  have n2: "''2'' \<noteq> []" and n7: "''7'' \<noteq> []" by simp_all
  show ?thesis
    using get_motor_type_labels
        [where dev = "scripted [[0x31, 0x3E, 0x32, 0x0D]]" and ch = fresh,
          OF get_8742(4) format_8742_QM a parse_examples(3) n2]
      get_motor_type_labels
        [where dev = "scripted [[0x31, 0x3E, 0x37, 0x0D]]" and ch = fresh,
          OF get_8742(4) format_8742_QM b parse_examples(6) n7]
    by simp
qed

lemma while_not_finished_moving_done:
  assumes "COMMANDS_get COMMANDS ''query_motion_done'' = Inr m"
    and "format_command COMMANDS m addr axis PNone = Inr cmd"
    and "status_reply dev (reads ch) True"
  shows "while_not_finished_moving COMMANDS dev addr axis ch =
           Some (Inr (), ch\<lparr>writes := writes ch @ [cmd], reads := Suc (reads ch)\<rparr>)"
  using assms(3)
  by (subst while_not_finished_moving.simps)
    (auto simp: finished_moving_eval [OF assms(1) assms(2)] status_reply_def last_char_nonempty
      split: option.splits sum.splits)

lemma while_not_finished_moving_again:
  assumes "COMMANDS_get COMMANDS ''query_motion_done'' = Inr m"
    and "format_command COMMANDS m addr axis PNone = Inr cmd"
    and "status_reply dev (reads ch) False"
  shows "while_not_finished_moving COMMANDS dev addr axis ch =
           while_not_finished_moving COMMANDS dev addr axis
             (ch\<lparr>writes := writes ch @ [cmd], reads := Suc (reads ch)\<rparr>)"
  using assms(3)
  by (subst while_not_finished_moving.simps)
    (auto simp: finished_moving_eval [OF assms(1) assms(2)] status_reply_def last_char_nonempty
      split: option.splits sum.splits)

lemma while_not_finished_moving_polls:
  assumes "COMMANDS_get COMMANDS ''query_motion_done'' = Inr m"
    and "format_command COMMANDS m addr axis PNone = Inr cmd"
  shows "(\<forall>i<k. status_reply dev (reads ch + i) False) \<Longrightarrow>
         status_reply dev (reads ch + k) True \<Longrightarrow>
         while_not_finished_moving COMMANDS dev addr axis ch =
           Some (Inr (), ch\<lparr>writes := writes ch @ replicate (Suc k) cmd,
                             reads := reads ch + Suc k\<rparr>)"
proof (induction k arbitrary: ch)
  case 0
  then show ?case
    using while_not_finished_moving_done [OF assms, of dev ch] by simp
next
  case (Suc k)
  let ?ch = "ch\<lparr>writes := writes ch @ [cmd], reads := Suc (reads ch)\<rparr>"
  from Suc.prems(1) have first: "status_reply dev (reads ch) False"
    by (metis add.right_neutral zero_less_Suc)
  have "\<forall>i<k. status_reply dev (reads ?ch + i) False"
  proof (intro allI impI)
    fix i
    assume "i < k"
    then have "Suc i < Suc k" by simp
    with Suc.prems(1) have "status_reply dev (reads ch + Suc i) False" by blast
    then show "status_reply dev (reads ?ch + i) False" by simp
  qed
  moreover have "status_reply dev (reads ?ch + k) True"
    using Suc.prems(2) by simp
  ultimately have "while_not_finished_moving COMMANDS dev addr axis ?ch =
      Some (Inr (), ?ch\<lparr>writes := writes ?ch @ replicate (Suc k) cmd,
                          reads := reads ?ch + Suc k\<rparr>)"
    by (rule Suc.IH)
  then show ?case
    using while_not_finished_moving_again [OF assms first]
    by (simp add: replicate_app_Cons_same)
qed



lemma while_not_finished_moving_returned:
  assumes "while_not_finished_moving COMMANDS dev addr axis ch = Some y"
    and "COMMANDS_get COMMANDS ''query_motion_done'' = Inr m"
    and "format_command COMMANDS m addr axis PNone = Inr cmd"
    and "fst y = Inr ()"
  shows "\<exists>k. (\<forall>i<k. status_reply dev (reads ch + i) False) \<and>
             status_reply dev (reads ch + k) True \<and>
             snd y = ch\<lparr>writes := writes ch @ replicate (Suc k) cmd, reads := reads ch + Suc k\<rparr>"
  using assms
proof (induction arbitrary: m cmd rule: while_not_finished_moving.raw_induct [rotated 1, consumes 1])
  case (1 w COMMANDS dev addr axis ch y)
  let ?ch = "ch\<lparr>writes := writes ch @ [cmd], reads := Suc (reads ch)\<rparr>"
  note ev = finished_moving_eval [OF "1.prems"(1) "1.prems"(2), of dev ch]
  from "1.hyps" "1.prems"(3) ev obtain raw where raw: "dev (reads ch) = Some raw"
    by (cases "dev (reads ch)") auto
  let ?reply = "drop 2 (rstrip (map chr_py (take 100 raw)))"
  from "1.hyps" "1.prems"(3) ev raw have ne: "?reply \<noteq> []"
    by (cases ?reply) auto
  show ?case
  proof (cases "last ?reply = CHR ''1''")
    case True
    with "1.hyps" ev raw ne have "y = (Inr (), ?ch)"
      by (simp add: last_char_nonempty)
    moreover from True raw ne have "status_reply dev (reads ch + 0) True"
      by (simp add: status_reply_def)
    ultimately have "(\<forall>i<(0::nat). status_reply dev (reads ch + i) False) \<and>
        status_reply dev (reads ch + 0) True \<and>
        snd y = ch\<lparr>writes := writes ch @ replicate (Suc 0) cmd, reads := reads ch + Suc 0\<rparr>"
      by simp
    then show ?thesis by blast
  next
    case False
    with "1.hyps" ev raw ne have "w COMMANDS dev addr axis ?ch = Some y"
      by (simp add: last_char_nonempty)
    from "1.IH" [OF this "1.prems"(1) "1.prems"(2) "1.prems"(3)]
    obtain k where k: "\<forall>i<k. status_reply dev (reads ?ch + i) False"
      "status_reply dev (reads ?ch + k) True"
      "snd y = ?ch\<lparr>writes := writes ?ch @ replicate (Suc k) cmd, reads := reads ?ch + Suc k\<rparr>"
      by blast
    from False raw ne have first: "status_reply dev (reads ch) False"
      by (simp add: status_reply_def)
    have "\<forall>i<Suc k. status_reply dev (reads ch + i) False"
    proof (intro allI impI)
      fix i
      assume "i < Suc k"
      show "status_reply dev (reads ch + i) False"
      proof (cases i)
        case 0
        with first show ?thesis by simp
      next
        case (Suc j)
        with \<open>i < Suc k\<close> have "j < k" by simp
        with k(1) have "status_reply dev (reads ?ch + j) False" by blast
        with Suc show ?thesis by simp
      qed
    qed
    moreover from k(2) have "status_reply dev (reads ch + Suc k) True"
      by simp
    moreover from k(3) have "snd y =
        ch\<lparr>writes := writes ch @ replicate (Suc (Suc k)) cmd, reads := reads ch + Suc (Suc k)\<rparr>"
      by (simp add: replicate_app_Cons_same)
    ultimately show ?thesis by blast
  qed
qed


lemma while_not_finished_moving_never_done:
  assumes "while_not_finished_moving COMMANDS dev addr axis ch = Some y"
    and "COMMANDS_get COMMANDS ''query_motion_done'' = Inr m"
    and "format_command COMMANDS m addr axis PNone = Inr cmd"
    and "\<forall>i. status_reply dev (reads ch + i) False"
  shows False
  using assms
proof (induction arbitrary: m cmd rule: while_not_finished_moving.raw_induct [rotated 1, consumes 1])
  case (1 w COMMANDS dev addr axis ch y)
  let ?ch = "ch\<lparr>writes := writes ch @ [cmd], reads := Suc (reads ch)\<rparr>"
  from "1.prems"(3) have "status_reply dev (reads ch + 0) False" by blast
  then have first: "status_reply dev (reads ch) False" by simp
  with "1.hyps" have "w COMMANDS dev addr axis ?ch = Some y"
    by (auto simp: finished_moving_eval [OF "1.prems"(1) "1.prems"(2)] status_reply_def
        last_char_nonempty split: option.splits sum.splits)
  moreover have "\<forall>i. status_reply dev (reads ?ch + i) False"
  proof
    fix i
    from "1.prems"(3) have "status_reply dev (reads ch + Suc i) False" by blast
    then show "status_reply dev (reads ?ch + i) False" by simp
  qed
  ultimately show ?case
    using "1.IH" "1.prems"(1) "1.prems"(2) by blast
qed

lemma while_not_finished_moving_hangs:
  assumes "COMMANDS_get COMMANDS ''query_motion_done'' = Inr m"
    and "format_command COMMANDS m addr axis PNone = Inr cmd"
    and "\<forall>i. status_reply dev (reads ch + i) False"
  shows "while_not_finished_moving COMMANDS dev addr axis ch = None"
proof (cases "while_not_finished_moving COMMANDS dev addr axis ch")
  case None
  then show ?thesis .
next
  case (Some y)
  from while_not_finished_moving_never_done [OF Some assms] show ?thesis ..
qed

lemma move_command_sent:
  assumes "addr = 1 \<or> addr = 2" and "1 \<le> axis" and "axis \<le> 4"
    and "COMMANDS_get COMMANDS name = Inr mv"
  shows "(pure_then (verify_address_value (PInt addr)) (\<lambda>u.
          pure_then (verify_axis_value (PInt axis)) (\<lambda>u.
          pure_then (if \<not> type_is_int (PInt target)
                     then Inl (ValueError ''Invalid target position'')
                     else Inr ()) (\<lambda>u.
          pure_then (COMMANDS_get COMMANDS name) (\<lambda>m.
          pure_then (format_command COMMANDS m (PInt addr) (PInt axis) (PInt target)) (\<lambda>cmd.
          and_then (send_command dev cmd False) (\<lambda>r. returns ()))))))) ch =
         (Inr (), ch\<lparr>writes := writes ch @
            [str_int addr @ ''>'' @ str_int axis @ mv @ str_int target @ [CR]]\<rparr>)"
proof -
  from assms(1) have ad: "py_eq_int (PInt addr) 1 \<or> py_eq_int (PInt addr) 2"
    by simp
  have "format_command COMMANDS mv (PInt addr) (PInt axis) (PInt target) =
      Inr (str_int addr @ ''>'' @ str_int axis @ mv @ str_int target @ [CR])"
    using format_command_axis [OF verify_command_get [OF assms(4)] ad assms(2) assms(3), of "PInt target"]
    by simp
  then show ?thesis
    using assms(4)
    by (simp add: pure_then_def and_then_def returns_def send_command_no_reply
        verify_address_value_ok [OF ad] verify_axis_value_ok [OF assms(2) assms(3)])
qed

lemma wait_after_move:
  assumes "COMMANDS_get COMMANDS ''query_motion_done'' = Inr md"
    and "format_command COMMANDS md addr axis PNone = Inr q"
  shows "(while_not_finished_moving COMMANDS dev addr axis (ch\<lparr>writes := writes ch @ [c]\<rparr>) =
            Some (Inr (), ch')) =
         (\<exists>k. (\<forall>i<k. status_reply dev (reads ch + i) False) \<and>
              status_reply dev (reads ch + k) True \<and>
              ch' = ch\<lparr>writes := writes ch @ c # replicate (Suc k) q, reads := reads ch + Suc k\<rparr>)"
proof
  let ?ch = "ch\<lparr>writes := writes ch @ [c]\<rparr>"
  assume "while_not_finished_moving COMMANDS dev addr axis ?ch = Some (Inr (), ch')"
  from while_not_finished_moving_returned [OF this assms]
  obtain k where "\<forall>i<k. status_reply dev (reads ?ch + i) False"
    "status_reply dev (reads ?ch + k) True"
    "ch' = ?ch\<lparr>writes := writes ?ch @ replicate (Suc k) q, reads := reads ?ch + Suc k\<rparr>"
    by auto
  then have "(\<forall>i<k. status_reply dev (reads ch + i) False) \<and>
      status_reply dev (reads ch + k) True \<and>
      ch' = ch\<lparr>writes := writes ch @ c # replicate (Suc k) q, reads := reads ch + Suc k\<rparr>"
    by simp
  then show "\<exists>k. (\<forall>i<k. status_reply dev (reads ch + i) False) \<and>
      status_reply dev (reads ch + k) True \<and>
      ch' = ch\<lparr>writes := writes ch @ c # replicate (Suc k) q, reads := reads ch + Suc k\<rparr>"
    by blast
next
  let ?ch = "ch\<lparr>writes := writes ch @ [c]\<rparr>"
  assume "\<exists>k. (\<forall>i<k. status_reply dev (reads ch + i) False) \<and>
      status_reply dev (reads ch + k) True \<and>
      ch' = ch\<lparr>writes := writes ch @ c # replicate (Suc k) q, reads := reads ch + Suc k\<rparr>"
  then obtain k where k: "\<forall>i<k. status_reply dev (reads ch + i) False"
    "status_reply dev (reads ch + k) True"
    "ch' = ch\<lparr>writes := writes ch @ c # replicate (Suc k) q, reads := reads ch + Suc k\<rparr>"
    by blast
  from k(1) have a: "\<forall>i<k. status_reply dev (reads ?ch + i) False" by simp
  from k(2) have b: "status_reply dev (reads ?ch + k) True" by simp
  from while_not_finished_moving_polls [OF assms a b] k(3)
  show "while_not_finished_moving COMMANDS dev addr axis ?ch = Some (Inr (), ch')"
    by simp
qed

text \<open>
  C6. For an address 1 or 2, an axis from 1 to 4 and an int target,
  \<open>move_to_target\<close> and \<open>move_relative\<close> return normally in exactly one situation:
  some status answer reports the motion done, all answers before it report it not
  done, and then the move command has been written once, followed by one status
  query per answer up to and including the first "done" one. With three "not
  done" answers and then a "done" one, that is four status queries.
\<close>

theorem move_returns_at_first_motion_done:
  assumes "addr = 1 \<or> addr = 2" and "1 \<le> axis" and "axis \<le> 4"
    and "COMMANDS_get COMMANDS ''move_to_target_pos'' = Inr pa"
    and "COMMANDS_get COMMANDS ''move_relative'' = Inr pr"
    and "COMMANDS_get COMMANDS ''query_motion_done'' = Inr md"
  shows
    "((move_to_target COMMANDS dev (PInt addr) (PInt axis) (PInt target) ch = Some (Inr (), ch')) =
      (\<exists>k. (\<forall>i<k. status_reply dev (reads ch + i) False) \<and>
           status_reply dev (reads ch + k) True \<and>
           ch' = ch\<lparr>writes := writes ch @
                    (str_int addr @ ''>'' @ str_int axis @ pa @ str_int target @ [CR]) #
                    replicate (Suc k) (str_int addr @ ''>'' @ str_int axis @ md @ [CR]),
                  reads := reads ch + Suc k\<rparr>)) \<and>
     ((move_relative COMMANDS dev (PInt addr) (PInt axis) (PInt target) ch = Some (Inr (), ch')) =
      (\<exists>k. (\<forall>i<k. status_reply dev (reads ch + i) False) \<and>
           status_reply dev (reads ch + k) True \<and>
           ch' = ch\<lparr>writes := writes ch @
                    (str_int addr @ ''>'' @ str_int axis @ pr @ str_int target @ [CR]) #
                    replicate (Suc k) (str_int addr @ ''>'' @ str_int axis @ md @ [CR]),
                  reads := reads ch + Suc k\<rparr>))"
proof -
  from assms(1) have ad: "py_eq_int (PInt addr) 1 \<or> py_eq_int (PInt addr) 2"
    by simp
  have q: "format_command COMMANDS md (PInt addr) (PInt axis) PNone =
      Inr (str_int addr @ ''>'' @ str_int axis @ md @ [CR])"
    using format_command_axis [OF verify_command_get [OF assms(6)] ad assms(2) assms(3), of PNone]
    by simp
  have "(move_to_target COMMANDS dev (PInt addr) (PInt axis) (PInt target) ch = Some (Inr (), ch')) =
      (while_not_finished_moving COMMANDS dev (PInt addr) (PInt axis)
         (ch\<lparr>writes := writes ch @
            [str_int addr @ ''>'' @ str_int axis @ pa @ str_int target @ [CR]]\<rparr>) =
       Some (Inr (), ch'))"
    unfolding move_to_target_def
    by (simp only: move_command_sent [OF assms(1) assms(2) assms(3) assms(4)]
        prod.case sum.case)
  moreover have "(move_relative COMMANDS dev (PInt addr) (PInt axis) (PInt target) ch = Some (Inr (), ch')) =
      (while_not_finished_moving COMMANDS dev (PInt addr) (PInt axis)
         (ch\<lparr>writes := writes ch @
            [str_int addr @ ''>'' @ str_int axis @ pr @ str_int target @ [CR]]\<rparr>) =
       Some (Inr (), ch'))"
    unfolding move_relative_def
    by (simp only: move_command_sent [OF assms(1) assms(2) assms(3) assms(5)]
        prod.case sum.case)
  ultimately show ?thesis
    by (simp only: wait_after_move [OF assms(6) q])
qed

lemma status_examples:
  "status_reply (scripted [[0x31, 0x3E, 0x30, 0x0D], [0x31, 0x3E, 0x30, 0x0D],
      [0x31, 0x3E, 0x30, 0x0D], [0x31, 0x3E, 0x31, 0x0D]]) 0 False"
  "status_reply (scripted [[0x31, 0x3E, 0x30, 0x0D], [0x31, 0x3E, 0x30, 0x0D],
      [0x31, 0x3E, 0x30, 0x0D], [0x31, 0x3E, 0x31, 0x0D]]) (Suc 0) False"
  "status_reply (scripted [[0x31, 0x3E, 0x30, 0x0D], [0x31, 0x3E, 0x30, 0x0D],
      [0x31, 0x3E, 0x30, 0x0D], [0x31, 0x3E, 0x31, 0x0D]]) (Suc (Suc 0)) False"
  "status_reply (scripted [[0x31, 0x3E, 0x30, 0x0D], [0x31, 0x3E, 0x30, 0x0D],
      [0x31, 0x3E, 0x30, 0x0D], [0x31, 0x3E, 0x31, 0x0D]]) (Suc (Suc (Suc 0))) True"
  by (simp_all add: status_reply_def scripted_def rstrip_def chr_py_simps isspace_simps)

theorem move_returns_at_first_motion_done_witness:
  "move_to_target COMMANDS_8742
      (scripted [[0x31, 0x3E, 0x30, 0x0D], [0x31, 0x3E, 0x30, 0x0D],
                 [0x31, 0x3E, 0x30, 0x0D], [0x31, 0x3E, 0x31, 0x0D]])
      (PInt 1) (PInt 1) (PInt 500) fresh =
     Some (Inr (), \<lparr>writes = [''1>1PA500'' @ [CR], ''1>1MD?'' @ [CR], ''1>1MD?'' @ [CR],
                               ''1>1MD?'' @ [CR], ''1>1MD?'' @ [CR]], reads = 4\<rparr>) \<and>
   move_relative COMMANDS_8742
      (scripted [[0x31, 0x3E, 0x30, 0x0D], [0x31, 0x3E, 0x30, 0x0D],
                 [0x31, 0x3E, 0x30, 0x0D], [0x31, 0x3E, 0x31, 0x0D]])
      (PInt 1) (PInt 1) (PInt 500) fresh =
     Some (Inr (), \<lparr>writes = [''1>1PR500'' @ [CR], ''1>1MD?'' @ [CR], ''1>1MD?'' @ [CR],
                               ''1>1MD?'' @ [CR], ''1>1MD?'' @ [CR]], reads = 4\<rparr>)"
proof -
  let ?dev = "scripted [[0x31, 0x3E, 0x30, 0x0D], [0x31, 0x3E, 0x30, 0x0D],
                        [0x31, 0x3E, 0x30, 0x0D], [0x31, 0x3E, 0x31, 0x0D]]"
  have h1: "(1::int) = 1 \<or> (1::int) = 2" and h2: "(1::int) \<le> 1" and h3: "(1::int) \<le> 4"
    by simp_all
  have nd: "\<forall>i<Suc (Suc (Suc 0)). status_reply ?dev (reads fresh + i) False"
    using status_examples(1-3) by (simp add: fresh_def less_Suc_eq)
  have d: "status_reply ?dev (reads fresh + Suc (Suc (Suc 0))) True"
    using status_examples(4) by (simp add: fresh_def)
  have a: "\<exists>k. (\<forall>i<k. status_reply ?dev (reads fresh + i) False) \<and>
      status_reply ?dev (reads fresh + k) True \<and>
      \<lparr>writes = [''1>1PA500'' @ [CR], ''1>1MD?'' @ [CR], ''1>1MD?'' @ [CR],
                 ''1>1MD?'' @ [CR], ''1>1MD?'' @ [CR]], reads = 4\<rparr> =
      fresh\<lparr>writes := writes fresh @
          (str_int 1 @ ''>'' @ str_int 1 @ ''PA'' @ str_int 500 @ [CR]) #
          replicate (Suc k) (str_int 1 @ ''>'' @ str_int 1 @ ''MD?'' @ [CR]),
        reads := reads fresh + Suc k\<rparr>"
    using nd d by (intro exI [of _ "Suc (Suc (Suc 0))"]) (simp add: fresh_def str_int_def)
  have b: "\<exists>k. (\<forall>i<k. status_reply ?dev (reads fresh + i) False) \<and>
      status_reply ?dev (reads fresh + k) True \<and>
      \<lparr>writes = [''1>1PR500'' @ [CR], ''1>1MD?'' @ [CR], ''1>1MD?'' @ [CR],
                 ''1>1MD?'' @ [CR], ''1>1MD?'' @ [CR]], reads = 4\<rparr> =
      fresh\<lparr>writes := writes fresh @
          (str_int 1 @ ''>'' @ str_int 1 @ ''PR'' @ str_int 500 @ [CR]) #
          replicate (Suc k) (str_int 1 @ ''>'' @ str_int 1 @ ''MD?'' @ [CR]),
        reads := reads fresh + Suc k\<rparr>"
    using nd d by (intro exI [of _ "Suc (Suc (Suc 0))"]) (simp add: fresh_def str_int_def)
  show ?thesis
    using move_returns_at_first_motion_done
        [OF h1 h2 h3 get_8742(6) get_8742(7) get_8742(2), of ?dev 500 fresh
          "\<lparr>writes = [''1>1PA500'' @ [CR], ''1>1MD?'' @ [CR], ''1>1MD?'' @ [CR],
                      ''1>1MD?'' @ [CR], ''1>1MD?'' @ [CR]], reads = 4\<rparr>"]
      move_returns_at_first_motion_done
        [OF h1 h2 h3 get_8742(6) get_8742(7) get_8742(2), of ?dev 500 fresh
          "\<lparr>writes = [''1>1PR500'' @ [CR], ''1>1MD?'' @ [CR], ''1>1MD?'' @ [CR],
                      ''1>1MD?'' @ [CR], ''1>1MD?'' @ [CR]], reads = 4\<rparr>"]
      a b
    by blast
qed


section \<open>Decimal numerals and binary digits\<close>

lemma digit_char_digit:
  assumes "n < 10"
  shows "is_digit (digit_char n) \<and> digit_val (digit_char n) = n"
proof -
  from assms have "n \<in> {0, 1, 2, 3, 4, 5, 6, 7, 8, 9}"
    by simp arith
  then show ?thesis
    by (auto simp: is_digit_def digit_val_def)
qed

lemma is_digit_plain:
  assumes "is_digit c"
  shows "\<not> int_space c" and "c \<noteq> CHR ''-''" and "c \<noteq> CHR ''+''" and "c \<noteq> CHR ''_''"
  using assms by (auto simp: is_digit_def int_space_def)

lemma dec_digits_unfold:
  "n < 10 \<Longrightarrow> dec_digits n = [digit_char n]"
  "\<not> n < 10 \<Longrightarrow> dec_digits n = dec_digits (n div 10) @ [digit_char (n mod 10)]"
  by (subst dec_digits.simps, simp del: dec_digits.simps digit_char.simps)+

lemma dec_digits_all_digits: "dec_digits n \<noteq> [] \<and> (\<forall>c\<in>set (dec_digits n). is_digit c)"
proof (induction n rule: dec_digits.induct)
  case (1 n)
  show ?case
  proof (cases "n < 10")
    case True
    then show ?thesis
      by (simp add: dec_digits_unfold(1) digit_char_digit del: dec_digits.simps digit_char.simps)
  next
    case False
    have "n mod 10 < 10" by simp
    then have "is_digit (digit_char (n mod 10))" by (simp only: digit_char_digit)
    with False "1.IH" show ?thesis
      by (simp add: dec_digits_unfold(2) del: dec_digits.simps digit_char.simps)
  qed
qed

lemma digits_ok_all_digits: "s \<noteq> [] \<Longrightarrow> \<forall>c\<in>set s. is_digit c \<Longrightarrow> digits_ok s"
  by (induction s rule: digits_ok.induct) (auto simp: is_digit_plain(4))

lemma dec_value_snoc: "is_digit d \<Longrightarrow> dec_value (s @ [d]) = 10 * dec_value s + digit_val d"
  by (simp add: dec_value_def)

lemma dec_value_dec_digits: "dec_value (dec_digits n) = n"
proof (induction n rule: dec_digits.induct)
  case (1 n)
  show ?case
  proof (cases "n < 10")
    case True
    then show ?thesis
      by (simp add: dec_digits_unfold(1) dec_value_def digit_char_digit
          del: dec_digits.simps digit_char.simps)
  next
    case False
    have m: "n mod 10 < 10" by simp
    from False "1.IH" have "dec_value (dec_digits (n div 10)) = n div 10" by blast
    then show ?thesis
      using False digit_char_digit [OF m]
      by (simp add: dec_digits_unfold(2) dec_value_snoc del: dec_digits.simps digit_char.simps)
  qed
qed

lemma strip_plain:
  assumes "s \<noteq> []" and "\<not> int_space (hd s)" and "\<not> int_space (last s)"
  shows "rev (dropWhile int_space (rev (dropWhile int_space s))) = s"
proof -
  from assms(1) assms(2) have a: "dropWhile int_space s = s"
    by (simp add: dropWhile_eq_self_iff)
  from assms(1) assms(3) have "dropWhile int_space (rev s) = rev s"
    by (simp add: dropWhile_eq_self_iff hd_rev)
  with a show ?thesis by simp
qed

lemma py_int_str_int: "py_int (str_int n) = Inr n"
proof -
  define k where "k = nat \<bar>n\<bar>"
  let ?d = "dec_digits k"
  from dec_digits_all_digits [of k] have ne: "?d \<noteq> []" and dg: "\<forall>c\<in>set ?d. is_digit c"
    by blast+
  from ne dg have h: "is_digit (hd ?d)" and l: "is_digit (last ?d)"
    by simp_all
  have ok: "digits_ok ?d" by (rule digits_ok_all_digits [OF ne dg])
  show ?thesis
  proof (cases "n < 0")
    case True
    then have s: "str_int n = CHR ''-'' # ?d"
      by (simp add: str_int_def k_def del: dec_digits.simps)
    have "rev (dropWhile int_space (rev (dropWhile int_space (CHR ''-'' # ?d)))) = CHR ''-'' # ?d"
      using ne is_digit_plain(1) [OF l]
      by (intro strip_plain) (simp_all add: int_space_def del: dec_digits.simps)
    then show ?thesis
      using True ok
      by (simp add: py_int_def s dec_value_dec_digits k_def Let_def del: dec_digits.simps)
  next
    case False
    then have s: "str_int n = ?d"
      by (simp add: str_int_def k_def del: dec_digits.simps)
    have "rev (dropWhile int_space (rev (dropWhile int_space ?d))) = ?d"
      using ne is_digit_plain(1) [OF h] is_digit_plain(1) [OF l] by (rule strip_plain)
    then show ?thesis
      using False ok ne is_digit_plain(2) [OF h] is_digit_plain(3) [OF h]
      by (simp add: py_int_def s dec_value_dec_digits k_def Let_def del: dec_digits.simps)
  qed
qed

section \<open>Address map\<close>

lemma digit_char_bit: "digit_char (n mod 2) = (if odd n then CHR ''1'' else CHR ''0'')"
proof (cases "odd n")
  case True
  then have "n mod 2 = 1" by (simp add: odd_iff_mod_2_eq_one)
  with True show ?thesis by simp
next
  case False
  then have "n mod 2 = 0" by simp
  with False show ?thesis by simp
qed

lemma digit_char_small: "n < 2 \<Longrightarrow> digit_char n = (if odd n then CHR ''1'' else CHR ''0'')"
  using digit_char_bit [of n] by simp

lemma bin_digits_unfold:
  "n < 2 \<Longrightarrow> bin_digits n = [digit_char n]"
  "\<not> n < 2 \<Longrightarrow> bin_digits n = bin_digits (n div 2) @ [digit_char (n mod 2)]"
  by (subst bin_digits.simps, simp del: bin_digits.simps digit_char.simps)+

lemma bin_digits_set: "set (bin_digits n) \<subseteq> {CHR ''0'', CHR ''1''}"
proof (induction n rule: bin_digits.induct)
  case (1 n)
  show ?case
  proof (cases "n < 2")
    case True
    then show ?thesis
      by (simp add: bin_digits_unfold(1) digit_char_small del: bin_digits.simps digit_char.simps)
  next
    case False
    with "1.IH" show ?thesis
      by (simp add: bin_digits_unfold(2) digit_char_bit del: bin_digits.simps digit_char.simps)
  qed
qed

lemma bin_digits_bound: "n < 2 ^ length (bin_digits n)"
proof (induction n rule: bin_digits.induct)
  case (1 n)
  show ?case
  proof (cases "n < 2")
    case True
    then show ?thesis
      by (simp add: bin_digits_unfold(1) del: bin_digits.simps digit_char.simps)
  next
    case False
    with "1.IH" have "n div 2 < 2 ^ length (bin_digits (n div 2))" by blast
    then have "n < 2 * 2 ^ length (bin_digits (n div 2))" by linarith
    with False show ?thesis
      by (simp add: bin_digits_unfold(2) del: bin_digits.simps digit_char.simps)
  qed
qed

lemma bin_digits_nth:
  "i < length (bin_digits n) \<Longrightarrow>
   rev (bin_digits n) ! i = (if bit n i then CHR ''1'' else CHR ''0'')"
proof (induction n arbitrary: i rule: bin_digits.induct)
  case (1 n)
  show ?case
  proof (cases "n < 2")
    case True
    then have b: "bin_digits n = [digit_char n]"
      by (rule bin_digits_unfold(1))
    with "1.prems" have "i = 0" by (simp del: bin_digits.simps digit_char.simps)
    with b True show ?thesis
      by (simp add: digit_char_small bit_0 del: bin_digits.simps digit_char.simps)
  next
    case False
    then have b: "bin_digits n = bin_digits (n div 2) @ [digit_char (n mod 2)]"
      by (rule bin_digits_unfold(2))
    show ?thesis
    proof (cases i)
      case 0
      with b show ?thesis
        by (simp add: digit_char_bit bit_0 del: bin_digits.simps digit_char.simps)
    next
      case (Suc j)
      with "1.prems" b have "j < length (bin_digits (n div 2))"
        by (simp del: bin_digits.simps digit_char.simps)
      with "1.IH" False
      have "rev (bin_digits (n div 2)) ! j = (if bit (n div 2) j then CHR ''1'' else CHR ''0'')"
        by blast
      with b Suc show ?thesis
        by (simp add: bit_Suc del: bin_digits.simps digit_char.simps)
    qed
  qed
qed

lemma py_int_bit_chars: "py_int ''0'' = Inr 0" "py_int ''1'' = Inr 1"
  by (simp_all add: py_int_def int_space_def is_digit_def digit_val_def dec_value_def)

lemma comprehension_bits:
  "set cs \<subseteq> {CHR ''0'', CHR ''1''} \<Longrightarrow>
   comprehension (\<lambda>s. py_int [s]) cs = Inr (map (\<lambda>c. if c = CHR ''1'' then 1 else 0) cs)"
  by (induction cs) (auto simp: py_int_bit_chars)

lemma address_map_of_parsed:
  assumes "COMMANDS_get COMMANDS ''query_RS485_addr'' = Inr m"
    and "dev (reads ch) = Some raw"
    and "parse_reply (Some (take 100 raw)) = Inr reply"
    and "py_int reply = Inr n"
    and "0 \<le> n"
  shows "\<exists>bits. fst (get_controller_address_map COMMANDS dev ch) = Inr bits \<and>
           bits = rev (map (\<lambda>c. if c = CHR ''1'' then 1 else 0) (format_b n)) \<and>
           (\<forall>i<length bits. bits ! i = (if bit n i then 1 else 0)) \<and>
           n < 2 ^ length bits"
proof -
  let ?bits = "rev (map (\<lambda>c. if c = CHR ''1'' then 1 else (0::int)) (format_b n))"
  from assms(5) have fb: "format_b n = bin_digits (nat n)"
    by (simp add: format_b_def)
  from assms(3) have r: "drop 2 (rstrip (map chr_py (take 100 raw))) = reply"
    by simp
  have fmt: "format_command COMMANDS m (PInt 1) PNone PNone = Inr (''1>'' @ m @ [CR])"
    using format_command_no_axis [OF verify_command_get [OF assms(1)], of "PInt 1" PNone PNone]
    by (simp add: str_int_def)
  have "fst (get_controller_address_map COMMANDS dev ch) = Inr ?bits"
    using assms(1) assms(2) assms(4) r fmt
    by (simp add: get_controller_address_map_def pure_then_def and_then_def returns_def
        send_command_reply fb comprehension_bits [OF bin_digits_set] rev_map
        del: bin_digits.simps)
  moreover have "\<forall>i<length ?bits. ?bits ! i = (if bit n i then 1 else 0)"
  proof (intro allI impI)
    fix i
    assume "i < length ?bits"
    then have i: "i < length (bin_digits (nat n))" by (simp add: fb del: bin_digits.simps)
    have "?bits ! i = (if rev (bin_digits (nat n)) ! i = CHR ''1'' then 1 else 0)"
      using i by (simp add: fb rev_map del: bin_digits.simps)
    also have "\<dots> = (if bit (nat n) i then 1 else 0)"
      by (simp add: bin_digits_nth [OF i] del: bin_digits.simps)
    also have "\<dots> = (if bit n i then 1 else 0)"
      using assms(5) by (simp add: bit_nat_iff)
    finally show "?bits ! i = (if bit n i then 1 else 0)" .
  qed
  moreover have "n < 2 ^ length ?bits"
  proof -
    have "nat n < 2 ^ length (bin_digits (nat n))" by (rule bin_digits_bound)
    then have "int (nat n) < int (2 ^ length (bin_digits (nat n)))" by (simp only: of_nat_less_iff)
    with assms(5) show ?thesis by (simp add: fb del: bin_digits.simps)
  qed
  ultimately show ?thesis by blast
qed

text \<open>
  C5. \<open>get_controller_address_map\<close> reads the cleaned reply as a decimal integer,
  writes the integer in binary and returns the digits in reverse order: for a
  cleaned reply that is the decimal numeral of \<open>n \<ge> 0\<close>, the result is the
  reversed list of the binary digits of \<open>n\<close>, its element \<open>i\<close> is bit \<open>i\<close> of \<open>n\<close>,
  and it is long enough to hold every set bit. The reply \<open>5\<close> (binary 101) gives
  \<open>[1, 0, 1]\<close>, the reply \<open>26\<close> (binary 11010) gives \<open>[0, 1, 0, 1, 1]\<close>.
\<close>

theorem address_map_bits:
  assumes "COMMANDS_get COMMANDS ''query_RS485_addr'' = Inr m"
    and "dev (reads ch) = Some raw"
    and "parse_reply (Some (take 100 raw)) = Inr (str_int n)"
    and "0 \<le> n"
  shows "\<exists>bits. fst (get_controller_address_map COMMANDS dev ch) = Inr bits \<and>
           bits = rev (map (\<lambda>c. if c = CHR ''1'' then 1 else 0) (format_b n)) \<and>
           (\<forall>i<length bits. bits ! i = (if bit n i then 1 else 0)) \<and>
           n < 2 ^ length bits"
  by (rule address_map_of_parsed
      [where dev = dev and ch = ch, OF assms(1) assms(2) assms(3) py_int_str_int assms(4)])

theorem address_map_bits_witness:
  "fst (get_controller_address_map COMMANDS_8742 (scripted [[0x31, 0x3E, 0x35, 0x0D]]) fresh) =
     Inr [1, 0, 1] \<and>
   fst (get_controller_address_map COMMANDS_8742 (scripted [[0x31, 0x3E, 0x32, 0x36, 0x0D]]) fresh) =
     Inr [0, 1, 0, 1, 1]"
proof -
  have a: "scripted [[0x31, 0x3E, 0x35, 0x0D]] (reads fresh) = Some [0x31, 0x3E, 0x35, 0x0D]"
    by (simp add: scripted_def fresh_def)
  have b: "scripted [[0x31, 0x3E, 0x32, 0x36, 0x0D]] (reads fresh) =
      Some [0x31, 0x3E, 0x32, 0x36, 0x0D]"
    by (simp add: scripted_def fresh_def)
  have p5: "parse_reply (Some (take 100 [0x31, 0x3E, 0x35, 0x0D])) = Inr (str_int 5)"
    using parse_examples(5) by (simp add: str_int_def)
  have p26: "parse_reply (Some (take 100 [0x31, 0x3E, 0x32, 0x36, 0x0D])) = Inr (str_int 26)"
    using parse_examples(9) by (simp add: str_int_def)
  have n5: "(0::int) \<le> 5" and n26: "(0::int) \<le> 26" by simp_all
  have f: "format_b 5 = ''101''" "format_b 26 = ''11010''"
    by (simp_all add: format_b_def)
  show ?thesis
    using address_map_bits
        [where dev = "scripted [[0x31, 0x3E, 0x35, 0x0D]]" and ch = fresh,
          OF get_8742(5) a p5 n5]
      address_map_bits
        [where dev = "scripted [[0x31, 0x3E, 0x32, 0x36, 0x0D]]" and ch = fresh,
          OF get_8742(5) b p26 n26]
    by (auto simp: f)
qed


section \<open>Validation comes before any write\<close>

lemma checks_fail:
  assumes "\<not> address_in_domain addr \<or> \<not> axis_in_domain axis"
  shows "pure_then (verify_address_value addr) (\<lambda>u. pure_then (verify_axis_value axis) f) ch =
           (Inl (invalid_error addr axis), ch)"
  using assms
  by (auto simp: pure_then_def verify_address_value_def verify_axis_value_def
      address_in_domain_def axis_in_domain_def invalid_error_def)

lemma address_check_fails:
  assumes "\<not> address_in_domain addr"
  shows "pure_then (verify_address_value addr) f ch = (Inl (ValueError ''Invalid address value''), ch)"
  using assms
  by (simp add: pure_then_def verify_address_value_def address_in_domain_def)

lemma format_command_rejects:
  assumes "verify_command COMMANDS m = Inr ()"
    and "\<not> address_in_domain addr \<or> (truthy axis \<and> \<not> axis_in_domain axis)"
  shows "format_command COMMANDS m addr axis val = Inl (invalid_error addr axis)"
  using assms
  by (auto simp: format_command_def verify_address_value_def verify_axis_value_def
      address_in_domain_def axis_in_domain_def invalid_error_def)

lemma formatter_checks_fail:
  assumes "\<not> address_in_domain addr \<or> (truthy axis \<and> \<not> axis_in_domain axis)"
  shows "pure_then (COMMANDS_get COMMANDS name) (\<lambda>m.
           pure_then (format_command COMMANDS m addr axis val) f) ch =
           (Inl (formatter_error COMMANDS name addr axis), ch)"
proof (cases "COMMANDS_get COMMANDS name")
  case (Inl e)
  then show ?thesis
    by (simp add: pure_then_def formatter_error_def)
next
  case (Inr m)
  from format_command_rejects [OF verify_command_get [OF Inr] assms]
  have "format_command COMMANDS m addr axis val = Inl (invalid_error addr axis)" .
  with Inr show ?thesis
    by (simp add: pure_then_def formatter_error_def)
qed

text \<open>
  C3 as stated fails in two places. An operation that leaves the checks to
  \<open>format_command\<close> takes an axis of 0 for no axis: \<open>finished_moving(1, 0)\<close>
  raises nothing and writes its query. And \<open>move_indefinitely\<close> tests its
  direction before the address: with address 3 and direction \<open>x\<close> it raises the
  direction error, not the address error.
\<close>

theorem axis_zero_sent_and_direction_first:
  "\<not> axis_in_domain (PInt 0) \<and>
   finished_moving COMMANDS_8742 (scripted [[0x31, 0x3E, 0x31, 0x0D]]) (PInt 1) (PInt 0) fresh =
     (Inr True, \<lparr>writes = [''1>MD?'' @ [CR]], reads = 1\<rparr>) \<and>
   \<not> address_in_domain (PInt 3) \<and>
   move_indefinitely COMMANDS_8742 (scripted []) (PInt 3) (PInt 1) (PStr ''x'') fresh =
     (Inl (ValueError ''Direction must be + or -''), fresh)"
proof -
  have f: "format_command COMMANDS_8742 ''MD?'' (PInt 1) (PInt 0) PNone = Inr (''1>MD?'' @ [CR])"
    using format_command_no_axis [OF verify_command_get [OF get_8742(2)], of "PInt 1" "PInt 0" PNone]
    by (simp add: str_int_def)
  have "finished_moving COMMANDS_8742 (scripted [[0x31, 0x3E, 0x31, 0x0D]]) (PInt 1) (PInt 0) fresh =
     (Inr True, \<lparr>writes = [''1>MD?'' @ [CR]], reads = 1\<rparr>)"
    by (simp add: finished_moving_eval [OF get_8742(2) f] scripted_def fresh_def rstrip_def
        chr_py_simps isspace_simps)
  moreover have "move_indefinitely COMMANDS_8742 (scripted []) (PInt 3) (PInt 1) (PStr ''x'') fresh =
     (Inl (ValueError ''Direction must be + or -''), fresh)"
    by (simp add: move_indefinitely_def pure_then_def)
  ultimately show ?thesis
    by (simp add: axis_in_domain_def address_in_domain_def)
qed

text \<open>
  C3, amended. Given an address outside \<open>{1, 2}\<close> or an axis outside \<open>[1, 4]\<close>,
  the operations below fail and leave the channel untouched: no write, no read.

  \<^item> The operations that call \<open>verify_address_value\<close> and \<open>verify_axis_value\<close>
    themselves (\<open>set_velocity\<close>, \<open>get_velocity\<close>, \<open>set_acceleration\<close>,
    \<open>get_position\<close>, \<open>set_home\<close>, \<open>move_to_target\<close>, \<open>move_relative\<close>,
    \<open>set_motor_type\<close>, \<open>stop_motion\<close>) raise the address error when the address is
    outside its domain and the axis error otherwise, whatever the remaining
    arguments are. \<open>move_indefinitely\<close> does the same when its direction is \<open>+\<close> or
    \<open>-\<close>, and raises the direction error otherwise.
  \<^item> \<open>detect_motors\<close>, \<open>set_address\<close> and \<open>get_address\<close> raise the address error for
    an address outside its domain.
  \<^item> The operations that leave the checks to \<open>format_command\<close> (\<open>get_id\<close>,
    \<open>get_acceleration\<close>, \<open>get_home\<close>, \<open>finished_moving\<close>, \<open>get_target\<close>,
    \<open>get_relative_target\<close>, \<open>get_motor_type\<close>) raise the same errors (or the
    \<open>KeyError\<close> of a name missing from the table) when the address is outside its
    domain, or when the axis is outside its domain and is not one of the values
    that \<^verbatim>\<open>if axis:\<close> takes for false (0, \<open>None\<close>, \<open>False\<close>, the empty string).
\<close>

theorem validation_precedes_write:
  assumes "\<not> address_in_domain addr \<or> \<not> axis_in_domain axis"
  shows "set_velocity COMMANDS dev addr axis val ch = (Inl (invalid_error addr axis), ch) \<and>
         get_velocity COMMANDS dev addr axis ch = (Inl (invalid_error addr axis), ch) \<and>
         set_acceleration COMMANDS dev addr axis val ch = (Inl (invalid_error addr axis), ch) \<and>
         get_position COMMANDS dev addr axis ch = (Inl (invalid_error addr axis), ch) \<and>
         set_home COMMANDS dev addr axis val ch = (Inl (invalid_error addr axis), ch) \<and>
         move_to_target COMMANDS dev addr axis val ch = Some (Inl (invalid_error addr axis), ch) \<and>
         move_relative COMMANDS dev addr axis val ch = Some (Inl (invalid_error addr axis), ch) \<and>
         set_motor_type COMMANDS dev addr axis val ch = (Inl (invalid_error addr axis), ch) \<and>
         stop_motion COMMANDS dev addr axis ch = (Inl (invalid_error addr axis), ch) \<and>
         move_indefinitely COMMANDS dev addr axis direction ch =
           (Inl (if py_eq_str direction ''+'' \<or> py_eq_str direction ''-''
                 then invalid_error addr axis
                 else ValueError ''Direction must be + or -''), ch) \<and>
         (\<not> address_in_domain addr \<longrightarrow>
            detect_motors COMMANDS dev addr ch = (Inl (ValueError ''Invalid address value''), ch) \<and>
            set_address COMMANDS dev addr val ch = (Inl (ValueError ''Invalid address value''), ch) \<and>
            get_address COMMANDS dev addr ch = (Inl (ValueError ''Invalid address value''), ch) \<and>
            get_id COMMANDS dev addr ch =
              (Inl (formatter_error COMMANDS ''id_string'' addr PNone), ch)) \<and>
         (\<not> address_in_domain addr \<or> truthy axis \<longrightarrow>
            get_acceleration COMMANDS dev addr axis ch =
              (Inl (formatter_error COMMANDS ''query_accel'' addr axis), ch) \<and>
            get_home COMMANDS dev addr axis ch =
              (Inl (formatter_error COMMANDS ''query_home'' addr axis), ch) \<and>
            finished_moving COMMANDS dev addr axis ch =
              (Inl (formatter_error COMMANDS ''query_motion_done'' addr axis), ch) \<and>
            get_target COMMANDS dev addr axis ch =
              (Inl (formatter_error COMMANDS ''query_target_pos'' addr axis), ch) \<and>
            get_relative_target COMMANDS dev addr axis ch =
              (Inl (formatter_error COMMANDS ''query_target_rel'' addr axis), ch) \<and>
            get_motor_type COMMANDS dev addr axis ch =
              (Inl (formatter_error COMMANDS ''query_motor_type'' addr axis), ch))"
proof -
  note c = checks_fail [OF assms]
  have 1: "set_velocity COMMANDS dev addr axis val ch = (Inl (invalid_error addr axis), ch)"
    unfolding set_velocity_def by (rule c)
  have 2: "get_velocity COMMANDS dev addr axis ch = (Inl (invalid_error addr axis), ch)"
    unfolding get_velocity_def by (rule c)
  have 3: "set_acceleration COMMANDS dev addr axis val ch = (Inl (invalid_error addr axis), ch)"
    unfolding set_acceleration_def by (rule c)
  have 4: "get_position COMMANDS dev addr axis ch = (Inl (invalid_error addr axis), ch)"
    unfolding get_position_def by (rule c)
  have 5: "set_home COMMANDS dev addr axis val ch = (Inl (invalid_error addr axis), ch)"
    unfolding set_home_def by (rule c)
  have 6: "move_to_target COMMANDS dev addr axis val ch = Some (Inl (invalid_error addr axis), ch)"
    unfolding move_to_target_def by (simp only: c prod.case sum.case)
  have 7: "move_relative COMMANDS dev addr axis val ch = Some (Inl (invalid_error addr axis), ch)"
    unfolding move_relative_def by (simp only: c prod.case sum.case)
  have 8: "set_motor_type COMMANDS dev addr axis val ch = (Inl (invalid_error addr axis), ch)"
    unfolding set_motor_type_def by (rule c)
  have 9: "stop_motion COMMANDS dev addr axis ch = (Inl (invalid_error addr axis), ch)"
    unfolding stop_motion_def by (rule c)
  have 10: "move_indefinitely COMMANDS dev addr axis direction ch =
           (Inl (if py_eq_str direction ''+'' \<or> py_eq_str direction ''-''
                 then invalid_error addr axis
                 else ValueError ''Direction must be + or -''), ch)"
  proof (cases "py_eq_str direction ''+'' \<or> py_eq_str direction ''-''")
    case True
    have "move_indefinitely COMMANDS dev addr axis direction ch =
        pure_then (verify_address_value addr) (\<lambda>u.
        pure_then (verify_axis_value axis) (\<lambda>u.
        pure_then (COMMANDS_get COMMANDS ''move_indefinitely'') (\<lambda>m.
        pure_then (format_command COMMANDS m addr axis direction) (\<lambda>cmd.
        and_then (send_command dev cmd False) (\<lambda>r. returns ()))))) ch"
      using True by (simp add: move_indefinitely_def pure_then_def)
    with True show ?thesis by (simp only: c if_True)
  next
    case False
    then show ?thesis by (simp add: move_indefinitely_def pure_then_def)
  qed
  have 11: "\<not> address_in_domain addr \<longrightarrow>
            detect_motors COMMANDS dev addr ch = (Inl (ValueError ''Invalid address value''), ch) \<and>
            set_address COMMANDS dev addr val ch = (Inl (ValueError ''Invalid address value''), ch) \<and>
            get_address COMMANDS dev addr ch = (Inl (ValueError ''Invalid address value''), ch) \<and>
            get_id COMMANDS dev addr ch =
              (Inl (formatter_error COMMANDS ''id_string'' addr PNone), ch)"
  proof
    assume bad: "\<not> address_in_domain addr"
    then have f: "\<not> address_in_domain addr \<or> (truthy PNone \<and> \<not> axis_in_domain PNone)"
      by simp
    have "detect_motors COMMANDS dev addr ch = (Inl (ValueError ''Invalid address value''), ch)"
      unfolding detect_motors_def by (rule address_check_fails [OF bad])
    moreover have "set_address COMMANDS dev addr val ch = (Inl (ValueError ''Invalid address value''), ch)"
      unfolding set_address_def by (rule address_check_fails [OF bad])
    moreover have "get_address COMMANDS dev addr ch = (Inl (ValueError ''Invalid address value''), ch)"
      unfolding get_address_def by (rule address_check_fails [OF bad])
    moreover have "get_id COMMANDS dev addr ch =
        (Inl (formatter_error COMMANDS ''id_string'' addr PNone), ch)"
      unfolding get_id_def by (rule formatter_checks_fail [OF f])
    ultimately show "detect_motors COMMANDS dev addr ch = (Inl (ValueError ''Invalid address value''), ch) \<and>
        set_address COMMANDS dev addr val ch = (Inl (ValueError ''Invalid address value''), ch) \<and>
        get_address COMMANDS dev addr ch = (Inl (ValueError ''Invalid address value''), ch) \<and>
        get_id COMMANDS dev addr ch =
          (Inl (formatter_error COMMANDS ''id_string'' addr PNone), ch)"
      by simp
  qed
  have 12: "\<not> address_in_domain addr \<or> truthy axis \<longrightarrow>
            get_acceleration COMMANDS dev addr axis ch =
              (Inl (formatter_error COMMANDS ''query_accel'' addr axis), ch) \<and>
            get_home COMMANDS dev addr axis ch =
              (Inl (formatter_error COMMANDS ''query_home'' addr axis), ch) \<and>
            finished_moving COMMANDS dev addr axis ch =
              (Inl (formatter_error COMMANDS ''query_motion_done'' addr axis), ch) \<and>
            get_target COMMANDS dev addr axis ch =
              (Inl (formatter_error COMMANDS ''query_target_pos'' addr axis), ch) \<and>
            get_relative_target COMMANDS dev addr axis ch =
              (Inl (formatter_error COMMANDS ''query_target_rel'' addr axis), ch) \<and>
            get_motor_type COMMANDS dev addr axis ch =
              (Inl (formatter_error COMMANDS ''query_motor_type'' addr axis), ch)"
  proof
    assume "\<not> address_in_domain addr \<or> truthy axis"
    with assms have f: "\<not> address_in_domain addr \<or> (truthy axis \<and> \<not> axis_in_domain axis)"
      by blast
    have "get_acceleration COMMANDS dev addr axis ch =
        (Inl (formatter_error COMMANDS ''query_accel'' addr axis), ch)"
      unfolding get_acceleration_def by (rule formatter_checks_fail [OF f])
    moreover have "get_home COMMANDS dev addr axis ch =
        (Inl (formatter_error COMMANDS ''query_home'' addr axis), ch)"
      unfolding get_home_def by (rule formatter_checks_fail [OF f])
    moreover have "finished_moving COMMANDS dev addr axis ch =
        (Inl (formatter_error COMMANDS ''query_motion_done'' addr axis), ch)"
      unfolding finished_moving_def by (rule formatter_checks_fail [OF f])
    moreover have "get_target COMMANDS dev addr axis ch =
        (Inl (formatter_error COMMANDS ''query_target_pos'' addr axis), ch)"
      unfolding get_target_def by (rule formatter_checks_fail [OF f])
    moreover have "get_relative_target COMMANDS dev addr axis ch =
        (Inl (formatter_error COMMANDS ''query_target_rel'' addr axis), ch)"
      unfolding get_relative_target_def by (rule formatter_checks_fail [OF f])
    moreover have "get_motor_type COMMANDS dev addr axis ch =
        (Inl (formatter_error COMMANDS ''query_motor_type'' addr axis), ch)"
      unfolding get_motor_type_def by (rule formatter_checks_fail [OF f])
    ultimately show "get_acceleration COMMANDS dev addr axis ch =
          (Inl (formatter_error COMMANDS ''query_accel'' addr axis), ch) \<and>
        get_home COMMANDS dev addr axis ch =
          (Inl (formatter_error COMMANDS ''query_home'' addr axis), ch) \<and>
        finished_moving COMMANDS dev addr axis ch =
          (Inl (formatter_error COMMANDS ''query_motion_done'' addr axis), ch) \<and>
        get_target COMMANDS dev addr axis ch =
          (Inl (formatter_error COMMANDS ''query_target_pos'' addr axis), ch) \<and>
        get_relative_target COMMANDS dev addr axis ch =
          (Inl (formatter_error COMMANDS ''query_target_rel'' addr axis), ch) \<and>
        get_motor_type COMMANDS dev addr axis ch =
          (Inl (formatter_error COMMANDS ''query_motor_type'' addr axis), ch)"
      by simp
  qed
  from 1 2 3 4 5 6 7 8 9 10 11 12 show ?thesis by blast
qed

theorem validation_precedes_write_witness:
  "set_velocity COMMANDS_8742 (scripted []) (PInt 3) (PInt 1) (PInt 500) fresh =
     (Inl (ValueError ''Invalid address value''), fresh) \<and>
   move_to_target COMMANDS_8742 (scripted []) (PInt 3) (PInt 1) (PInt 500) fresh =
     Some (Inl (ValueError ''Invalid address value''), fresh) \<and>
   set_address COMMANDS_8742 (scripted []) (PInt 3) (PInt 500) fresh =
     (Inl (ValueError ''Invalid address value''), fresh) \<and>
   finished_moving COMMANDS_8742 (scripted []) (PInt 3) (PInt 1) fresh =
     (Inl (ValueError ''Invalid address value''), fresh) \<and>
   stop_motion COMMANDS_8742 (scripted []) (PInt 1) (PInt 5) fresh =
     (Inl (ValueError ''Invalid axis value''), fresh) \<and>
   get_motor_type COMMANDS_8742 (scripted []) (PInt 1) (PInt 5) fresh =
     (Inl (ValueError ''Invalid axis value''), fresh) \<and>
   get_position COMMANDS_8742 (scripted []) (PInt 2) (PInt 0) fresh =
     (Inl (ValueError ''Invalid axis value''), fresh)"
proof -
  have a: "\<not> address_in_domain (PInt 3) \<or> \<not> axis_in_domain (PInt 1)"
    by (simp add: address_in_domain_def)
  have b: "\<not> address_in_domain (PInt 1) \<or> \<not> axis_in_domain (PInt 5)"
    by (simp add: axis_in_domain_def)
  have c: "\<not> address_in_domain (PInt 2) \<or> \<not> axis_in_domain (PInt 0)"
    by (simp add: axis_in_domain_def)
  have e: "invalid_error (PInt 3) (PInt 1) = ValueError ''Invalid address value''"
    "invalid_error (PInt 1) (PInt 5) = ValueError ''Invalid axis value''"
    "invalid_error (PInt 2) (PInt 0) = ValueError ''Invalid axis value''"
    "\<not> address_in_domain (PInt 3)"
    by (simp_all add: invalid_error_def address_in_domain_def)
  have g: "formatter_error COMMANDS_8742 ''query_motion_done'' (PInt 3) (PInt 1) =
      ValueError ''Invalid address value''"
    "formatter_error COMMANDS_8742 ''query_motor_type'' (PInt 1) (PInt 5) =
      ValueError ''Invalid axis value''"
    by (simp_all add: formatter_error_def get_8742 e)
  show ?thesis
    using validation_precedes_write [OF a, of COMMANDS_8742 "scripted []" "PInt 500" fresh]
      validation_precedes_write [OF b, of COMMANDS_8742 "scripted []" "PInt 500" fresh]
      validation_precedes_write [OF c, of COMMANDS_8742 "scripted []" "PInt 500" fresh]
    by (simp add: e g)
qed

end
